theory Spec2Isabelle
  imports Main "HOL-Library.Multiset"
begin

section \<open>JavaScript values and strings\<close>

text \<open>
  A JavaScript string is a sequence of UTF-16 code units and \<open>length\<close> counts them.
  Here a string is a \<open>char list\<close> in which every character stands for one code unit in
  the range U+0000 .. U+00FF; code units above that range are outside the model.

  A field of a parsed JSON body is \<open>undefined\<close> (absent), \<open>null\<close>, a boolean, a
  number or a string; \<open>JNum\<close> carries an integral number that \<open>String\<close> prints in
  plain digits (fractions and magnitudes from \<open>1e21\<close> on are outside the model), and
  \<open>JComposite s\<close> is an array or object whose conversion \<open>String(v)\<close> gives \<open>s\<close>
  (the handlers look at nothing else of such a value). A request body is a parsed JSON
  object, read by property name.
\<close>

datatype json =
    JUndefined
  | JNull
  | JBool bool
  | JNum int
  | JStr string
  | JComposite string

type_synonym body = "string \<Rightarrow> json"

text \<open>\<open>typeof v\<close>.\<close>

fun typeof :: "json \<Rightarrow> string" where
  "typeof JUndefined = ''undefined''"
| "typeof JNull = ''object''"
| "typeof (JBool _) = ''boolean''"
| "typeof (JNum _) = ''number''"
| "typeof (JStr _) = ''string''"
| "typeof (JComposite _) = ''object''"

text \<open>Truthiness, and \<open>v || ""\<close>.\<close>

fun truthy :: "json \<Rightarrow> bool" where
  "truthy JUndefined = False"
| "truthy JNull = False"
| "truthy (JBool b) = b"
| "truthy (JNum n) = (n \<noteq> 0)"
| "truthy (JStr s) = (s \<noteq> [])"
| "truthy (JComposite _) = True"

definition or_empty :: "json \<Rightarrow> json" where
  "or_empty v = (if truthy v then v else JStr [])"

text \<open>Decimal digits of a natural number, most significant first.\<close>

fun dec :: "nat \<Rightarrow> string" where
  "dec n = (if n < 10 then [char_of (48 + n)] else dec (n div 10) @ [char_of (48 + n mod 10)])"

text \<open>\<open>String(v)\<close>.\<close>

fun String :: "json \<Rightarrow> string" where
  "String JUndefined = ''undefined''"
| "String JNull = ''null''"
| "String (JBool b) = (if b then ''true'' else ''false'')"
| "String (JNum n) = (if n < 0 then CHR ''-'' # dec (nat (- n)) else dec (nat n))"
| "String (JStr s) = s"
| "String (JComposite s) = s"

text \<open>
  \<open>String.prototype.trim\<close> removes white space and line terminators from both ends.
  In the range of the model these are TAB, LF, VT, FF, CR, SPACE and NO-BREAK SPACE.
\<close>

definition is_space :: "char \<Rightarrow> bool" where
  "is_space c = (of_char c \<in> {9, 10, 11, 12, 13, 32, 160 :: nat})"

definition trim :: "string \<Rightarrow> string" where
  "trim s = rev (dropWhile is_space (rev (dropWhile is_space s)))"

text \<open>
  \<open>String.prototype.toLowerCase\<close>: in the range of the model, A .. Z and the capital
  letters U+00C0 .. U+00DE (the multiplication sign U+00D7 apart) move up by 32.
\<close>

definition lower_char :: "char \<Rightarrow> char" where
  "lower_char c =
     (let n = (of_char c :: nat)
      in if (65 \<le> n \<and> n \<le> 90) \<or> (192 \<le> n \<and> n \<le> 222 \<and> n \<noteq> 215)
         then char_of (n + 32) else c)"

definition toLowerCase :: "string \<Rightarrow> string" where
  "toLowerCase s = map lower_char s"

text \<open>\<open>s.includes(c)\<close> for a one-character needle.\<close>

definition str_includes :: "string \<Rightarrow> char \<Rightarrow> bool" where
  "str_includes s c = (c \<in> set s)"

text \<open>
  \<open>Number(req.params.id)\<close>: a path segment converts to an integral number
  (\<open>Whole\<close>) or to a value that is no integer (\<open>NotWhole\<close>: \<open>NaN\<close> for a segment
  such as \<open>abc\<close>, a fraction for \<open>1.5\<close>).
\<close>

datatype number = Whole int | NotWhole

section \<open>The store\<close>

text \<open>
  The tables \<open>users\<close> and \<open>tasks\<close> of both servers, with the columns the handlers
  read and write (\<open>created_at\<close> is never read). \<open>users_seq\<close> and \<open>tasks_seq\<close>
  are the next values of the key generators (\<open>SERIAL\<close>, \<open>AUTOINCREMENT\<close>).
  The store is taken to be reachable and its generators not to run out: a statement
  fails only where said below.
\<close>

record user_row =
  u_id :: int
  u_email :: string
  u_password_hash :: string

record task_row =
  t_id :: int
  t_owner_id :: int
  t_title :: string
  t_completed :: bool

record db =
  users :: "user_row list"
  tasks :: "task_row list"
  users_seq :: int
  tasks_seq :: int

text \<open>\<open>SELECT id, email, password_hash FROM users WHERE email = ?\<close>, first row.\<close>

definition find_user_by_email :: "db \<Rightarrow> string \<Rightarrow> user_row option" where
  "find_user_by_email d email = find (\<lambda>u. u_email u = email) (users d)"

text \<open>
  \<open>INSERT INTO users (email, password_hash) VALUES (?, ?)\<close>. The column \<open>email\<close> is
  \<open>UNIQUE\<close>: the statement fails (\<open>None\<close>) on an email that is already stored.
  Otherwise it gives the new row's id and the new store.
\<close>

definition insert_user :: "db \<Rightarrow> string \<Rightarrow> string \<Rightarrow> (int \<times> db) option" where
  "insert_user d email password_hash =
     (if email \<in> set (map u_email (users d)) then None
      else Some (users_seq d,
        d\<lparr>users := users d @ [\<lparr>u_id = users_seq d, u_email = email, u_password_hash = password_hash\<rparr>],
          users_seq := users_seq d + 1\<rparr>))"

text \<open>The columns \<open>id, title, completed\<close> of a task, as the servers answer them.\<close>

record task_json =
  j_id :: int
  j_title :: string
  j_completed :: bool

definition task_columns :: "task_row \<Rightarrow> task_json" where
  "task_columns t = \<lparr>j_id = t_id t, j_title = t_title t, j_completed = t_completed t\<rparr>"

text \<open>\<open>SELECT id, title, completed FROM tasks WHERE owner_id = ? ORDER BY id DESC\<close>.\<close>

definition select_tasks_for_user :: "db \<Rightarrow> int \<Rightarrow> task_json list" where
  "select_tasks_for_user d owner =
     map task_columns (rev (sort_key t_id (filter (\<lambda>t. t_owner_id t = owner) (tasks d))))"

text \<open>
  \<open>INSERT INTO tasks (owner_id, title, completed) VALUES (?, ?, FALSE)\<close>. The column
  \<open>owner_id\<close> is declared \<open>REFERENCES users(id)\<close> in both schemas: the statement
  fails (\<open>None\<close>) for an owner that is no stored user. Otherwise it gives the new
  row's id and the new store.
\<close>

definition insert_task :: "db \<Rightarrow> int \<Rightarrow> string \<Rightarrow> (int \<times> db) option" where
  "insert_task d owner title =
     (if owner \<in> set (map u_id (users d))
      then Some (tasks_seq d,
        d\<lparr>tasks := tasks d @ [\<lparr>t_id = tasks_seq d, t_owner_id = owner, t_title = title, t_completed = False\<rparr>],
          tasks_seq := tasks_seq d + 1\<rparr>)
      else None)"

text \<open>The rows a \<open>WHERE id = ? AND owner_id = ?\<close> selects.\<close>

definition selected :: "int \<Rightarrow> int \<Rightarrow> task_row \<Rightarrow> bool" where
  "selected task_id owner t = (t_id t = task_id \<and> t_owner_id t = owner)"

text \<open>
  \<open>UPDATE tasks SET title = ? WHERE id = ? AND owner_id = ?\<close>, with the number of rows
  the statement matched, and the same for \<open>completed\<close> and for \<open>DELETE\<close>.
\<close>

definition update_title :: "db \<Rightarrow> string \<Rightarrow> int \<Rightarrow> int \<Rightarrow> nat \<times> db" where
  "update_title d title task_id owner =
     (length (filter (selected task_id owner) (tasks d)),
      d\<lparr>tasks := map (\<lambda>t. if selected task_id owner t then t\<lparr>t_title := title\<rparr> else t) (tasks d)\<rparr>)"

definition update_completed :: "db \<Rightarrow> bool \<Rightarrow> int \<Rightarrow> int \<Rightarrow> nat \<times> db" where
  "update_completed d completed task_id owner =
     (length (filter (selected task_id owner) (tasks d)),
      d\<lparr>tasks := map (\<lambda>t. if selected task_id owner t then t\<lparr>t_completed := completed\<rparr> else t) (tasks d)\<rparr>)"

definition delete_task :: "db \<Rightarrow> int \<Rightarrow> int \<Rightarrow> nat \<times> db" where
  "delete_task d task_id owner =
     (length (filter (selected task_id owner) (tasks d)),
      d\<lparr>tasks := filter (\<lambda>t. \<not> selected task_id owner t) (tasks d)\<rparr>)"

text \<open>
  What the schema keeps true of a store: \<open>id\<close> is the primary key of both tables and
  lies below the generator's next value, and \<open>email\<close> is unique.
\<close>

definition wf_db :: "db \<Rightarrow> bool" where
  "wf_db d =
     (distinct (map t_id (tasks d)) \<and> list_all (\<lambda>t. t_id t < tasks_seq d) (tasks d) \<and>
      distinct (map u_id (users d)) \<and> list_all (\<lambda>u. u_id u < users_seq d) (users d) \<and>
      distinct (map u_email (users d)))"

text \<open>
  What the Postgres server accepts as a parameter. A number compared with the column
  \<open>id\<close>, of type \<open>integer\<close>, must be an integer of that type's range; a text must not
  hold the character U+0000. The server rejects a query with any other parameter, and
  \<open>pool.query\<close> throws.
\<close>

definition int4 :: "int \<Rightarrow> bool" where
  "int4 i = (- 2147483648 \<le> i \<and> i \<le> 2147483647)"

definition pg_text :: "string \<Rightarrow> bool" where
  "pg_text s = (char_of (0 :: nat) \<notin> set s)"

text \<open>
  The statements of the SQLite server. The driver binds any number and any string. A
  \<open>taskId\<close> that is no integer (\<open>NaN\<close> for the segment \<open>abc\<close>, \<open>1.5\<close>) equals no
  id: the statement runs and matches nothing.
\<close>

fun stmtUpdateTitle :: "db \<Rightarrow> string \<Rightarrow> number \<Rightarrow> int \<Rightarrow> nat \<times> db" where
  "stmtUpdateTitle d title (Whole i) owner = update_title d title i owner"
| "stmtUpdateTitle d title NotWhole owner = (0, d)"

fun stmtUpdateCompleted :: "db \<Rightarrow> bool \<Rightarrow> number \<Rightarrow> int \<Rightarrow> nat \<times> db" where
  "stmtUpdateCompleted d completed (Whole i) owner = update_completed d completed i owner"
| "stmtUpdateCompleted d completed NotWhole owner = (0, d)"

fun stmtDeleteTask :: "db \<Rightarrow> number \<Rightarrow> int \<Rightarrow> nat \<times> db" where
  "stmtDeleteTask d (Whole i) owner = delete_task d i owner"
| "stmtDeleteTask d NotWhole owner = (0, d)"

text \<open>
  The queries of the Postgres server; \<open>None\<close> is a query that throws. The driver sends
  \<open>taskId\<close> as text, and the server reads an integer of the column's type from it or
  rejects the query. The caller's id is the id in a token of this server, an id the
  \<open>users\<close> table gave out, and is not examined here.
\<close>

fun pool_query_update_title :: "db \<Rightarrow> string \<Rightarrow> number \<Rightarrow> int \<Rightarrow> (nat \<times> db) option" where
  "pool_query_update_title d title (Whole i) owner =
     (if int4 i \<and> pg_text title then Some (update_title d title i owner) else None)"
| "pool_query_update_title d title NotWhole owner = None"

fun pool_query_update_completed :: "db \<Rightarrow> bool \<Rightarrow> number \<Rightarrow> int \<Rightarrow> (nat \<times> db) option" where
  "pool_query_update_completed d completed (Whole i) owner =
     (if int4 i then Some (update_completed d completed i owner) else None)"
| "pool_query_update_completed d completed NotWhole owner = None"

fun pool_query_delete :: "db \<Rightarrow> number \<Rightarrow> int \<Rightarrow> (nat \<times> db) option" where
  "pool_query_delete d (Whole i) owner =
     (if int4 i then Some (delete_task d i owner) else None)"
| "pool_query_delete d NotWhole owner = None"

definition pool_query_insert_task :: "db \<Rightarrow> int \<Rightarrow> string \<Rightarrow> (int \<times> db) option" where
  "pool_query_insert_task d owner title =
     (if pg_text title then insert_task d owner title else None)"

definition pool_query_find_user :: "db \<Rightarrow> string \<Rightarrow> user_row option option" where
  "pool_query_find_user d email =
     (if pg_text email then Some (find_user_by_email d email) else None)"

definition pool_query_insert_user :: "db \<Rightarrow> string \<Rightarrow> string \<Rightarrow> (int \<times> db) option" where
  "pool_query_insert_user d email password_hash =
     (if pg_text email \<and> pg_text password_hash then insert_user d email password_hash else None)"

section \<open>Tokens\<close>

text \<open>
  What the servers are given from outside: the signing secret \<open>JWT_SECRET\<close>, the
  clock (in seconds), and the two functions of the password hashing library
  (\<open>hashSync\<close> with the salt it draws, and \<open>compareSync\<close>).
\<close>

record env =
  JWT_SECRET :: string
  now :: nat
  hashSync :: "string \<Rightarrow> string"
  compareSync :: "string \<Rightarrow> string \<Rightarrow> bool"

text \<open>
  The payload of a token, \<open>{ id, email, iat, exp }\<close>, and a token: a payload signed
  under a key, or a text that is no token at all.
\<close>

record claims =
  c_id :: int
  c_email :: string
  iat :: nat
  exp :: nat

datatype jwt = Jwt string claims | NotJwt

text \<open>
  Modelled from the spec: the token library behind \<open>jwt.sign\<close> and \<open>jwt.verify\<close> is
  not among the sources. Issuance signs \<open>{user_id, email}\<close> with the secret and embeds
  issued-at and the expiry; verification fails if the signature is invalid, the payload
  malformed or the expiry has passed, and otherwise returns the payload. The signature
  is ideal: a token verifies under the key it was signed with and under no other. The
  expiry has passed from the second \<open>exp\<close> on.
\<close>

definition jwt_sign :: "int \<Rightarrow> string \<Rightarrow> string \<Rightarrow> nat \<Rightarrow> nat \<Rightarrow> jwt" where
  "jwt_sign uid email secret expires_in t =
     Jwt secret \<lparr>c_id = uid, c_email = email, iat = t, exp = t + expires_in\<rparr>"

fun jwt_verify :: "jwt \<Rightarrow> string \<Rightarrow> nat \<Rightarrow> claims option" where
  "jwt_verify NotJwt secret t = None"
| "jwt_verify (Jwt k c) secret t = (if k = secret \<and> t < exp c then Some c else None)"

text \<open>\<open>expiresIn: "2h"\<close>, in seconds.\<close>

definition expiresIn :: nat where
  "expiresIn = 2 * 60 * 60"

definition createToken :: "env \<Rightarrow> int \<Rightarrow> string \<Rightarrow> jwt" where
  "createToken e uid email = jwt_sign uid email (JWT_SECRET e) expiresIn (now e)"

section \<open>Responses\<close>

datatype reply =
    Error string
  | Token jwt
  | TaskList "task_json list"
  | Task task_json
  | Success
  | Ok
  | DefaultErrorPage

record response =
  status :: nat
  reply :: reply

definition respond :: "nat \<Rightarrow> reply \<Rightarrow> response" where
  "respond code r = \<lparr>status = code, reply = r\<rparr>"

text \<open>
  The \<open>Authorization\<close> header: absent or not starting with \<open>Bearer \<close>, or
  \<open>Bearer\<close> followed by a text.
\<close>

datatype authorization = NoBearer | Bearer jwt

text \<open>
  \<open>requireAuth\<close> answers 401 itself or passes the verified payload (\<open>req.user\<close>) to
  the handler \<open>next\<close>.
\<close>

fun requireAuth :: "env \<Rightarrow> authorization \<Rightarrow> (claims \<Rightarrow> response \<times> db) \<Rightarrow> db \<Rightarrow> response \<times> db" where
  "requireAuth e NoBearer next d = (respond 401 (Error ''Missing token''), d)"
| "requireAuth e (Bearer token) next d =
     (case jwt_verify token (JWT_SECRET e) (now e) of
        Some payload \<Rightarrow> next payload
      | None \<Rightarrow> (respond 401 (Error ''Invalid or expired token''), d))"

section \<open>The routes of the Postgres server\<close>

text \<open>
  Each handler takes the store and gives the response and the store after it. A query
  that throws is caught by the handler's \<open>try\<close> and answered with 500.
\<close>

definition server_error :: response where
  "server_error = respond 500 (Error ''Server error'')"

definition pg_auth_register :: "env \<Rightarrow> body \<Rightarrow> db \<Rightarrow> response \<times> db" where
  "pg_auth_register e b d =
     (let email = toLowerCase (trim (String (or_empty (b ''email''))));
          password = String (or_empty (b ''password''))
      in if \<not> str_includes email CHR ''@'' then (respond 400 (Error ''Enter a valid email.''), d)
         else if length password < 4
           then (respond 400 (Error ''Password must be at least 4 characters.''), d)
         else (case pool_query_find_user d email of
                 None \<Rightarrow> (server_error, d)
               | Some (Some existing) \<Rightarrow> (respond 409 (Error ''Email already registered.''), d)
               | Some None \<Rightarrow>
                  (case pool_query_insert_user d email (hashSync e password) of
                     None \<Rightarrow> (server_error, d)
                   | Some (uid, d') \<Rightarrow> (respond 201 (Token (createToken e uid email)), d'))))"

text \<open>
  The login reads the user by \<open>find_user_by_email\<close>: what is stated of a login below
  is stated of the lookup's result, the first row or none. That the Postgres server
  rejects the lookup of an email holding U+0000, as it does in the registration, is not
  part of this definition.
\<close>

definition pg_auth_login :: "env \<Rightarrow> body \<Rightarrow> db \<Rightarrow> response \<times> db" where
  "pg_auth_login e b d =
     (let email = toLowerCase (trim (String (or_empty (b ''email''))));
          password = String (or_empty (b ''password''))
      in case find_user_by_email d email of
           None \<Rightarrow> (respond 401 (Error ''Invalid credentials.''), d)
         | Some user \<Rightarrow>
             if \<not> compareSync e password (u_password_hash user)
             then (respond 401 (Error ''Invalid credentials.''), d)
             else (respond 200 (Token (createToken e (u_id user) (u_email user))), d))"

definition pg_tasks_get :: "claims \<Rightarrow> db \<Rightarrow> response \<times> db" where
  "pg_tasks_get user d = (respond 200 (TaskList (select_tasks_for_user d (c_id user))), d)"

definition pg_tasks_post :: "claims \<Rightarrow> body \<Rightarrow> db \<Rightarrow> response \<times> db" where
  "pg_tasks_post user b d =
     (let title = trim (String (or_empty (b ''title'')))
      in if length title < 2
         then (respond 400 (Error ''Title must be at least 2 characters.''), d)
         else (case pool_query_insert_task d (c_id user) title of
                 None \<Rightarrow> (server_error, d)
               | Some (tid, d') \<Rightarrow>
                   (respond 201 (Task \<lparr>j_id = tid, j_title = title, j_completed = False\<rparr>), d')))"

text \<open>
  \<open>PUT /api/tasks/:id\<close>. The case \<open>JStr s\<close> is \<open>typeof title === "string"\<close> and
  the case \<open>JBool c\<close> is \<open>typeof completed === "boolean"\<close>. First the second half
  of the handler, from the test of \<open>completed\<close> on, with \<open>changed\<close> as the first
  half left it.
\<close>

definition pg_put_completed :: "claims \<Rightarrow> number \<Rightarrow> json \<Rightarrow> nat \<Rightarrow> db \<Rightarrow> response \<times> db" where
  "pg_put_completed user taskId completed changed d =
     (case (case completed of
              JBool c \<Rightarrow>
                (case pool_query_update_completed d c taskId (c_id user) of
                   None \<Rightarrow> None
                 | Some (n, d') \<Rightarrow> Some (changed + n, d'))
            | _ \<Rightarrow> Some (changed, d)) of
        None \<Rightarrow> (server_error, d)
      | Some (changed', d') \<Rightarrow>
          if changed' = 0 then (respond 404 (Error ''Task not found.''), d')
          else (respond 200 Success, d'))"

definition pg_tasks_put :: "claims \<Rightarrow> number \<Rightarrow> body \<Rightarrow> db \<Rightarrow> response \<times> db" where
  "pg_tasks_put user taskId b d =
     (let title = b ''title''; completed = b ''completed''
      in case title of
           JStr s \<Rightarrow>
             (let trimmed = trim s
              in if length trimmed < 2
                 then (respond 400 (Error ''Title must be at least 2 characters.''), d)
                 else (case pool_query_update_title d trimmed taskId (c_id user) of
                         None \<Rightarrow> (server_error, d)
                       | Some (n, d') \<Rightarrow> pg_put_completed user taskId completed (0 + n) d'))
         | _ \<Rightarrow> pg_put_completed user taskId completed 0 d)"

definition pg_tasks_delete :: "claims \<Rightarrow> number \<Rightarrow> db \<Rightarrow> response \<times> db" where
  "pg_tasks_delete user taskId d =
     (case pool_query_delete d taskId (c_id user) of
        None \<Rightarrow> (server_error, d)
      | Some (n, d') \<Rightarrow>
          if n = 0 then (respond 404 (Error ''Task not found.''), d')
          else (respond 200 Success, d'))"

section \<open>The routes of the SQLite server\<close>

text \<open>
  The handlers have no \<open>try\<close>: a statement that throws leaves the handler, and the
  framework answers with its own error page. \<open>completed\<close> is stored as 0 or 1 and
  read back with \<open>!!\<close>; the model keeps the boolean.
\<close>

definition sqlite_auth_register :: "env \<Rightarrow> body \<Rightarrow> db \<Rightarrow> response \<times> db" where
  "sqlite_auth_register e b d =
     (let email = toLowerCase (trim (String (or_empty (b ''email''))));
          password = String (or_empty (b ''password''))
      in if \<not> str_includes email CHR ''@'' then (respond 400 (Error ''Enter a valid email.''), d)
         else if length password < 4
           then (respond 400 (Error ''Password must be at least 4 characters.''), d)
         else (case find_user_by_email d email of
                 Some existing \<Rightarrow> (respond 409 (Error ''Email already registered.''), d)
               | None \<Rightarrow>
                  (case insert_user d email (hashSync e password) of
                     None \<Rightarrow> (respond 500 DefaultErrorPage, d)
                   | Some (uid, d') \<Rightarrow> (respond 201 (Token (createToken e uid email)), d'))))"

definition sqlite_auth_login :: "env \<Rightarrow> body \<Rightarrow> db \<Rightarrow> response \<times> db" where
  "sqlite_auth_login e b d =
     (let email = toLowerCase (trim (String (or_empty (b ''email''))));
          password = String (or_empty (b ''password''))
      in case find_user_by_email d email of
           None \<Rightarrow> (respond 401 (Error ''Invalid credentials.''), d)
         | Some user \<Rightarrow>
             if \<not> compareSync e password (u_password_hash user)
             then (respond 401 (Error ''Invalid credentials.''), d)
             else (respond 200 (Token (createToken e (u_id user) (u_email user))), d))"

definition sqlite_tasks_get :: "claims \<Rightarrow> db \<Rightarrow> response \<times> db" where
  "sqlite_tasks_get user d = (respond 200 (TaskList (select_tasks_for_user d (c_id user))), d)"

definition sqlite_tasks_post :: "claims \<Rightarrow> body \<Rightarrow> db \<Rightarrow> response \<times> db" where
  "sqlite_tasks_post user b d =
     (let title = trim (String (or_empty (b ''title'')))
      in if length title < 2
         then (respond 400 (Error ''Title must be at least 2 characters.''), d)
         else (case insert_task d (c_id user) title of
                 None \<Rightarrow> (respond 500 DefaultErrorPage, d)
               | Some (tid, d') \<Rightarrow>
                   (respond 201 (Task \<lparr>j_id = tid, j_title = title, j_completed = False\<rparr>), d')))"

definition sqlite_put_completed :: "claims \<Rightarrow> number \<Rightarrow> json \<Rightarrow> nat \<Rightarrow> db \<Rightarrow> response \<times> db" where
  "sqlite_put_completed user taskId completed changed d =
     (case (case completed of
              JBool c \<Rightarrow>
                (case stmtUpdateCompleted d c taskId (c_id user) of
                   (n, d') \<Rightarrow> (changed + n, d'))
            | _ \<Rightarrow> (changed, d)) of
        (changed', d') \<Rightarrow>
          if changed' = 0 then (respond 404 (Error ''Task not found.''), d')
          else (respond 200 Success, d'))"

definition sqlite_tasks_put :: "claims \<Rightarrow> number \<Rightarrow> body \<Rightarrow> db \<Rightarrow> response \<times> db" where
  "sqlite_tasks_put user taskId b d =
     (let title = b ''title''; completed = b ''completed''
      in case title of
           JStr s \<Rightarrow>
             (let trimmed = trim s
              in if length trimmed < 2
                 then (respond 400 (Error ''Title must be at least 2 characters.''), d)
                 else (case stmtUpdateTitle d trimmed taskId (c_id user) of
                         (n, d') \<Rightarrow> sqlite_put_completed user taskId completed (0 + n) d'))
         | _ \<Rightarrow> sqlite_put_completed user taskId completed 0 d)"

definition sqlite_tasks_delete :: "claims \<Rightarrow> number \<Rightarrow> db \<Rightarrow> response \<times> db" where
  "sqlite_tasks_delete user taskId d =
     (case stmtDeleteTask d taskId (c_id user) of
        (n, d') \<Rightarrow>
          if n = 0 then (respond 404 (Error ''Task not found.''), d')
          else (respond 200 Success, d'))"

section \<open>Requests\<close>

text \<open>The routes of the API, with what a request carries to each.\<close>

datatype request =
    PostRegister body
  | PostLogin body
  | GetTasks authorization
  | PostTasks authorization body
  | PutTask authorization number body
  | DeleteTask authorization number
  | GetHealth

fun pg_server :: "env \<Rightarrow> request \<Rightarrow> db \<Rightarrow> response \<times> db" where
  "pg_server e (PostRegister b) d = pg_auth_register e b d"
| "pg_server e (PostLogin b) d = pg_auth_login e b d"
| "pg_server e (GetTasks a) d = requireAuth e a (\<lambda>user. pg_tasks_get user d) d"
| "pg_server e (PostTasks a b) d = requireAuth e a (\<lambda>user. pg_tasks_post user b d) d"
| "pg_server e (PutTask a taskId b) d = requireAuth e a (\<lambda>user. pg_tasks_put user taskId b d) d"
| "pg_server e (DeleteTask a taskId) d = requireAuth e a (\<lambda>user. pg_tasks_delete user taskId d) d"
| "pg_server e GetHealth d = (respond 200 Ok, d)"

fun sqlite_server :: "env \<Rightarrow> request \<Rightarrow> db \<Rightarrow> response \<times> db" where
  "sqlite_server e (PostRegister b) d = sqlite_auth_register e b d"
| "sqlite_server e (PostLogin b) d = sqlite_auth_login e b d"
| "sqlite_server e (GetTasks a) d = requireAuth e a (\<lambda>user. sqlite_tasks_get user d) d"
| "sqlite_server e (PostTasks a b) d = requireAuth e a (\<lambda>user. sqlite_tasks_post user b d) d"
| "sqlite_server e (PutTask a taskId b) d = requireAuth e a (\<lambda>user. sqlite_tasks_put user taskId b d) d"
| "sqlite_server e (DeleteTask a taskId) d = requireAuth e a (\<lambda>user. sqlite_tasks_delete user taskId d) d"
| "sqlite_server e GetHealth d = (respond 200 Ok, d)"

section \<open>The client's task list\<close>

text \<open>
  A task as the client holds it: the fields the servers answer, and the fields
  \<open>priority\<close>, \<open>status\<close>, \<open>dueDate\<close> and \<open>due_date\<close> that \<open>visibleTasks\<close> reads
  (\<open>None\<close> where a field is \<open>undefined\<close> or \<open>null\<close>).
\<close>

record client_task =
  k_id :: "int option"
  k_title :: string
  k_completed :: bool
  k_priority :: "string option"
  k_status :: "string option"
  k_dueDate :: "string option"
  k_due_date :: "string option"

text \<open>\<open>a ?? b\<close> on a string field.\<close>

definition nullish :: "'a option \<Rightarrow> 'a \<Rightarrow> 'a" where
  "nullish v dflt = (case v of None \<Rightarrow> dflt | Some x \<Rightarrow> x)"

text \<open>
  \<open>priorityRank[p] ?? 2\<close> for the object \<open>{ high: 3, medium: 2, low: 1 }\<close>. A name
  the object inherits from \<open>Object.prototype\<close> reads a function or an object, with
  which the subtraction gives \<open>NaN\<close>: \<open>None\<close> here.
\<close>

definition priorityRank :: "(string \<times> int) list" where
  "priorityRank = [(''high'', 3), (''medium'', 2), (''low'', 1)]"

definition inherited_names :: "string list" where
  "inherited_names =
     [''constructor'', ''__defineGetter__'', ''__defineSetter__'', ''hasOwnProperty'',
      ''__lookupGetter__'', ''__lookupSetter__'', ''isPrototypeOf'', ''propertyIsEnumerable'',
      ''toString'', ''valueOf'', ''__proto__'', ''toLocaleString'']"

definition rank_of :: "string option \<Rightarrow> int option" where
  "rank_of p =
     (let key = nullish p ''medium''
      in case map_of priorityRank key of
           Some r \<Rightarrow> Some r
         | None \<Rightarrow> if key \<in> set inherited_names then None else Some 2)"

text \<open>
  The comparison function of \<open>visibleTasks\<close>; \<open>None\<close> is \<open>NaN\<close>. The collation
  \<open>localeCompare\<close> is the platform's and is taken as given.
\<close>

definition compare_tasks ::
  "(string \<Rightarrow> string \<Rightarrow> int) \<Rightarrow> string \<Rightarrow> client_task \<Rightarrow> client_task \<Rightarrow> int option" where
  "compare_tasks localeCompare sortBy a b =
     (if sortBy = ''priority'' then
        (case (rank_of (k_priority a), rank_of (k_priority b)) of
           (Some ap, Some bp) \<Rightarrow> Some (bp - ap)
         | _ \<Rightarrow> None)
      else if sortBy = ''due_date'' then
        (let ad = nullish (k_dueDate a) (nullish (k_due_date a) []);
             bd = nullish (k_dueDate b) (nullish (k_due_date b) [])
         in if ad = [] \<and> bd = [] then Some 0
            else if ad = [] then Some 1
            else if bd = [] then Some (- 1)
            else Some (localeCompare ad bd))
      else Some (nullish (k_id b) 0 - nullish (k_id a) 0))"

text \<open>
  \<open>Array.prototype.sort\<close> is stable and reads a comparison result \<open>NaN\<close> as 0:
  insertion from the right, each element before the first one it does not exceed.
  Where the comparison orders the elements consistently, every stable sort gives this
  list.
\<close>

fun insert_by :: "('a \<Rightarrow> 'a \<Rightarrow> int option) \<Rightarrow> 'a \<Rightarrow> 'a list \<Rightarrow> 'a list" where
  "insert_by cmp x [] = [x]"
| "insert_by cmp x (y # ys) =
     (if nullish (cmp x y) 0 \<le> 0 then x # y # ys else y # insert_by cmp x ys)"

definition array_sort :: "('a \<Rightarrow> 'a \<Rightarrow> int option) \<Rightarrow> 'a list \<Rightarrow> 'a list" where
  "array_sort cmp xs = foldr (insert_by cmp) xs []"

definition visibleTasks ::
  "(string \<Rightarrow> string \<Rightarrow> int) \<Rightarrow> client_task list option \<Rightarrow> string \<Rightarrow> string \<Rightarrow> client_task list" where
  "visibleTasks localeCompare task_list filterStatus sortBy =
     array_sort (compare_tasks localeCompare sortBy)
       (filter (\<lambda>t. let s = nullish (k_status t) ''todo''
                     in if filterStatus = ''all'' then True else s = filterStatus)
          (nullish task_list []))"

section \<open>Example data\<close>

text \<open>
  A parsed request body with the given properties, a small store, and a stand-in for
  the hashing library that keeps the password readable.
\<close>

definition body_of :: "(string \<times> json) list \<Rightarrow> body" where
  "body_of props key = (case map_of props key of None \<Rightarrow> JUndefined | Some v \<Rightarrow> v)"

definition example_env :: env where
  "example_env =
     \<lparr>JWT_SECRET = ''dev-fallback'', now = 1000,
      hashSync = (\<lambda>p. ''salt:'' @ p), compareSync = (\<lambda>p h. h = ''salt:'' @ p)\<rparr>"

definition example_db :: db where
  "example_db =
     \<lparr>users = [\<lparr>u_id = 1, u_email = ''ann@x.io'', u_password_hash = ''salt:pass1''\<rparr>,
               \<lparr>u_id = 2, u_email = ''bob@x.io'', u_password_hash = ''salt:pass2''\<rparr>],
      tasks = [\<lparr>t_id = 1, t_owner_id = 1, t_title = ''Buy milk'', t_completed = False\<rparr>,
               \<lparr>t_id = 2, t_owner_id = 2, t_title = ''Walk dog'', t_completed = True\<rparr>,
               \<lparr>t_id = 3, t_owner_id = 1, t_title = ''Pay rent'', t_completed = False\<rparr>],
      users_seq = 3, tasks_seq = 4\<rparr>"

definition ann :: claims where
  "ann = \<lparr>c_id = 1, c_email = ''ann@x.io'', iat = 1000, exp = 8200\<rparr>"

definition bob :: claims where
  "bob = \<lparr>c_id = 2, c_email = ''bob@x.io'', iat = 1000, exp = 8200\<rparr>"

text \<open>Three tasks as the client may hold them, created in the order low, high, medium.\<close>

definition low_task :: client_task where
  "low_task =
     \<lparr>k_id = Some 1, k_title = ''Water plants'', k_completed = False,
      k_priority = Some ''low'', k_status = None, k_dueDate = None, k_due_date = None\<rparr>"

definition high_task :: client_task where
  "high_task =
     \<lparr>k_id = Some 2, k_title = ''File taxes'', k_completed = False,
      k_priority = Some ''high'', k_status = Some ''in_progress'', k_dueDate = None,
      k_due_date = None\<rparr>"

definition medium_task :: client_task where
  "medium_task =
     \<lparr>k_id = Some 3, k_title = ''Book dentist'', k_completed = True,
      k_priority = Some ''medium'', k_status = Some ''done'', k_dueDate = None,
      k_due_date = None\<rparr>"

section \<open>Where the two servers agree\<close>

lemma sqlite_auth_login_eq: "sqlite_auth_login = pg_auth_login"
  by (intro ext) (simp add: sqlite_auth_login_def pg_auth_login_def)

lemma sqlite_tasks_get_eq: "sqlite_tasks_get = pg_tasks_get"
  by (intro ext) (simp add: sqlite_tasks_get_def pg_tasks_get_def)

lemma typeof_string: "typeof v = ''string'' \<longleftrightarrow> (\<exists>s. v = JStr s)"
  by (cases v) simp_all

text \<open>
  A Postgres handler answers 500 where its query is rejected and otherwise does what
  the SQLite handler does.
\<close>

lemma pg_put_completed_eq:
  "pg_put_completed user (Whole i) cv n d =
     (if typeof cv = ''boolean'' \<and> \<not> int4 i then (respond 500 (Error ''Server error''), d)
      else sqlite_put_completed user (Whole i) cv n d)"
  by (cases cv)
    (simp_all add: pg_put_completed_def sqlite_put_completed_def server_error_def
      split: prod.splits)

lemma pg_tasks_put_eq:
  "pg_tasks_put user (Whole i) b d =
     (if \<not> (typeof (b ''title'') = ''string'' \<and> length (trim (String (b ''title''))) < 2)
         \<and> (typeof (b ''title'') = ''string'' \<or> typeof (b ''completed'') = ''boolean'')
         \<and> (\<not> int4 i \<or> (typeof (b ''title'') = ''string'' \<and> \<not> pg_text (trim (String (b ''title'')))))
      then (respond 500 (Error ''Server error''), d)
      else sqlite_tasks_put user (Whole i) b d)"
  by (cases "b ''title''")
    (simp_all add: pg_tasks_put_def sqlite_tasks_put_def Let_def pg_put_completed_eq
      server_error_def split: prod.splits)

lemma pg_tasks_delete_eq:
  "pg_tasks_delete user (Whole i) d =
     (if int4 i then sqlite_tasks_delete user (Whole i) d
      else (respond 500 (Error ''Server error''), d))"
  by (simp add: pg_tasks_delete_def sqlite_tasks_delete_def server_error_def split: prod.splits)

lemma pg_tasks_post_eq:
  "pg_tasks_post user b d =
     (if 2 \<le> length (trim (String (or_empty (b ''title''))))
         \<and> (\<not> pg_text (trim (String (or_empty (b ''title''))))
              \<or> c_id user \<notin> u_id ` set (users d))
      then (respond 500 (Error ''Server error''), d)
      else sqlite_tasks_post user b d)"
  by (auto simp: pg_tasks_post_def sqlite_tasks_post_def Let_def pool_query_insert_task_def
      insert_task_def server_error_def)

section \<open>Rows selected by id and owner\<close>

lemma selected_update [simp]:
  "selected i u (t\<lparr>t_title := x\<rparr>) = selected i u t"
  "selected i u (t\<lparr>t_completed := c\<rparr>) = selected i u t"
  by (simp_all add: selected_def)

lemma map_unselected:
  "\<forall>t \<in> set xs. \<not> selected i u t \<Longrightarrow> map (\<lambda>t. if selected i u t then g t else t) xs = xs"
  by (induction xs) simp_all

lemma filter_unselected:
  "\<forall>t \<in> set xs. \<not> selected i u t \<Longrightarrow> filter (\<lambda>t. \<not> selected i u t) xs = xs"
  by (induction xs) simp_all

lemma foreign_task_unselected:
  assumes "wf_db d" and "t \<in> set (tasks d)" and "t_owner_id t \<noteq> u"
  shows "\<forall>t' \<in> set (tasks d). \<not> selected (t_id t) u t'"
proof
  fix t' assume t': "t' \<in> set (tasks d)"
  from assms(1) have "inj_on t_id (set (tasks d))"
    by (simp add: wf_db_def distinct_map)
  with t' assms(2) have "t_id t' = t_id t \<Longrightarrow> t' = t"
    by (auto dest: inj_onD)
  with assms(3) show "\<not> selected (t_id t) u t'"
    by (auto simp: selected_def)
qed

text \<open>The update handler on a body that passes validation, in one step.\<close>

lemma sqlite_put_completed_whole:
  "sqlite_put_completed user (Whole i) cv n d =
     ((if n + (if typeof cv = ''boolean'' then length (filter (selected i (c_id user)) (tasks d)) else 0) = 0
       then respond 404 (Error ''Task not found.'') else respond 200 Success),
      d\<lparr>tasks := map (\<lambda>t. if selected i (c_id user) t
                            then t\<lparr>t_completed := (case cv of JBool c \<Rightarrow> c | _ \<Rightarrow> t_completed t)\<rparr>
                            else t) (tasks d)\<rparr>)"
  by (cases cv) (simp_all add: sqlite_put_completed_def update_completed_def cong: if_cong)

lemma map_map_selected:
  "(\<And>t. sel (f t) = sel t) \<Longrightarrow>
   map (\<lambda>t. if sel t then g t else t) (map (\<lambda>t. if sel t then f t else t) xs) =
   map (\<lambda>t. if sel t then g (f t) else t) xs"
  by (induction xs) simp_all

lemma sqlite_tasks_put_whole:
  assumes valid: "typeof (b ''title'') = ''string'' \<longrightarrow> 2 \<le> length (trim (String (b ''title'')))"
  shows "sqlite_tasks_put user (Whole i) b d =
     ((if (typeof (b ''title'') = ''string'' \<or> typeof (b ''completed'') = ''boolean'')
           \<and> (\<exists>t \<in> set (tasks d). selected i (c_id user) t)
       then respond 200 Success else respond 404 (Error ''Task not found.'')),
      d\<lparr>tasks := map (\<lambda>t. if selected i (c_id user) t
                            then t\<lparr>t_title := (case b ''title'' of JStr s \<Rightarrow> trim s | _ \<Rightarrow> t_title t),
                                   t_completed := (case b ''completed'' of JBool c \<Rightarrow> c | _ \<Rightarrow> t_completed t)\<rparr>
                            else t) (tasks d)\<rparr>)"
proof (cases "b ''title''")
  case (JStr s)
  let ?sel = "selected i (c_id user)"
  let ?d1 = "d\<lparr>tasks := map (\<lambda>t. if ?sel t then t\<lparr>t_title := trim s\<rparr> else t) (tasks d)\<rparr>"
  from valid JStr have "\<not> length (trim s) < 2" by simp
  with JStr have step: "sqlite_tasks_put user (Whole i) b d =
      sqlite_put_completed user (Whole i) (b ''completed'') (length (filter ?sel (tasks d))) ?d1"
    by (simp add: sqlite_tasks_put_def update_title_def)
  have count: "length (filter ?sel (tasks ?d1)) = length (filter ?sel (tasks d))"
    by (simp add: o_def if_distrib [of "selected i (c_id user)"])
  have rows: "map (\<lambda>t. if ?sel t
                   then t\<lparr>t_completed := (case b ''completed'' of JBool c \<Rightarrow> c | _ \<Rightarrow> t_completed t)\<rparr>
                   else t) (tasks ?d1) =
              map (\<lambda>t. if ?sel t
                   then t\<lparr>t_title := trim s,
                          t_completed := (case b ''completed'' of JBool c \<Rightarrow> c | _ \<Rightarrow> t_completed t)\<rparr>
                   else t) (tasks d)"
    by (simp add: map_map_selected split: json.splits)
  show ?thesis
    unfolding step sqlite_put_completed_whole count rows
    using JStr by (auto simp: filter_empty_conv)
next
  case JUndefined
  then show ?thesis
    by (auto simp: sqlite_tasks_put_def sqlite_put_completed_whole filter_empty_conv cong: if_cong)
next
  case JNull
  then show ?thesis
    by (auto simp: sqlite_tasks_put_def sqlite_put_completed_whole filter_empty_conv cong: if_cong)
next
  case (JBool x)
  then show ?thesis
    by (auto simp: sqlite_tasks_put_def sqlite_put_completed_whole filter_empty_conv cong: if_cong)
next
  case (JNum x)
  then show ?thesis
    by (auto simp: sqlite_tasks_put_def sqlite_put_completed_whole filter_empty_conv cong: if_cong)
next
  case (JComposite x)
  then show ?thesis
    by (auto simp: sqlite_tasks_put_def sqlite_put_completed_whole filter_empty_conv cong: if_cong)
qed

lemma put_rejects_short_title:
  assumes "typeof (b ''title'') = ''string''"
    and "length (trim (String (b ''title''))) < 2"
  shows "pg_tasks_put user taskId b d =
           (respond 400 (Error ''Title must be at least 2 characters.''), d)
     \<and> sqlite_tasks_put user taskId b d =
           (respond 400 (Error ''Title must be at least 2 characters.''), d)"
  using assms by (auto simp: typeof_string pg_tasks_put_def sqlite_tasks_put_def)

lemma sqlite_tasks_delete_whole:
  "sqlite_tasks_delete user (Whole i) d =
     ((if \<exists>t \<in> set (tasks d). selected i (c_id user) t
       then respond 200 Success else respond 404 (Error ''Task not found.'')),
      d\<lparr>tasks := filter (\<lambda>t. \<not> selected i (c_id user) t) (tasks d)\<rparr>)"
  by (auto simp: sqlite_tasks_delete_def delete_task_def filter_empty_conv)

section \<open>What a caller cannot reach\<close>

lemma select_tasks_ids:
  "j_id ` set (select_tasks_for_user d u) = t_id ` {t \<in> set (tasks d). t_owner_id t = u}"
  by (auto simp: select_tasks_for_user_def task_columns_def image_iff)

lemma foreign_task_not_listed:
  assumes "wf_db d" and "t \<in> set (tasks d)" and "t_owner_id t \<noteq> u"
  shows "t_id t \<notin> j_id ` set (select_tasks_for_user d u)"
proof
  assume "t_id t \<in> j_id ` set (select_tasks_for_user d u)"
  then obtain t' where t': "t' \<in> set (tasks d)" "t_owner_id t' = u" "t_id t' = t_id t"
    by (auto simp: select_tasks_ids)
  then have "selected (t_id t) u t'" by (simp add: selected_def)
  with foreign_task_unselected [OF assms] t'(1) show False by blast
qed

lemma sqlite_put_completed_keeps_foreign:
  assumes "t \<in> set (tasks d)" and "t_owner_id t \<noteq> c_id user"
  shows "t \<in> set (tasks (snd (sqlite_put_completed user n cv k d)))"
  using assms
  by (cases cv; cases n)
    (force simp: sqlite_put_completed_def update_completed_def selected_def image_iff)+

lemma sqlite_put_keeps_foreign:
  assumes "t \<in> set (tasks d)" and "t_owner_id t \<noteq> c_id user"
  shows "t \<in> set (tasks (snd (sqlite_tasks_put user n b d)))"
proof -
  have upd: "t \<in> set (tasks d')" if "update_title d x i (c_id user) = (k, d')" for x i k d'
    using assms that by (force simp: update_title_def selected_def image_iff)
  show ?thesis
    using assms upd
    by (cases "b ''title''"; cases n)
      (auto simp: sqlite_tasks_put_def Let_def split: prod.splits
        intro!: sqlite_put_completed_keeps_foreign)
qed

lemma sqlite_delete_keeps_foreign:
  assumes "t \<in> set (tasks d)" and "t_owner_id t \<noteq> c_id user"
  shows "t \<in> set (tasks (snd (sqlite_tasks_delete user n d)))"
  using assms
  by (cases n) (auto simp: sqlite_tasks_delete_def delete_task_def selected_def)

lemma sqlite_post_keeps_rows:
  "t \<in> set (tasks d) \<Longrightarrow> t \<in> set (tasks (snd (sqlite_tasks_post user b d)))"
  by (auto simp: sqlite_tasks_post_def insert_task_def Let_def)

text \<open>The Postgres handlers: a rejected query leaves the store as it was.\<close>

lemma pg_put_not_whole:
  "snd (pg_tasks_put user NotWhole b d) = d"
proof -
  have "snd (pg_put_completed user NotWhole cv k d) = d" for cv k
    by (cases cv) (simp_all add: pg_put_completed_def server_error_def)
  then show ?thesis
    by (cases "b ''title''") (simp_all add: pg_tasks_put_def Let_def)
qed

lemma pg_put_keeps_foreign:
  assumes "t \<in> set (tasks d)" and "t_owner_id t \<noteq> c_id user"
  shows "t \<in> set (tasks (snd (pg_tasks_put user n b d)))"
proof (cases n)
  case (Whole i)
  with assms sqlite_put_keeps_foreign [OF assms, of "Whole i" b] show ?thesis
    by (simp add: pg_tasks_put_eq)
next
  case NotWhole
  with assms show ?thesis by (simp add: pg_put_not_whole)
qed

lemma pg_delete_keeps_foreign:
  assumes "t \<in> set (tasks d)" and "t_owner_id t \<noteq> c_id user"
  shows "t \<in> set (tasks (snd (pg_tasks_delete user n d)))"
proof (cases n)
  case (Whole i)
  with assms sqlite_delete_keeps_foreign [OF assms, of "Whole i"] show ?thesis
    by (simp add: pg_tasks_delete_eq)
next
  case NotWhole
  with assms show ?thesis by (simp add: pg_tasks_delete_def server_error_def)
qed

lemma pg_post_keeps_rows:
  "t \<in> set (tasks d) \<Longrightarrow> t \<in> set (tasks (snd (pg_tasks_post user b d)))"
  using sqlite_post_keeps_rows [of t d user b] by (simp add: pg_tasks_post_eq)

section \<open>A created task\<close>

lemma wf_db_fresh_task_id: "wf_db d \<Longrightarrow> tasks_seq d \<notin> t_id ` set (tasks d)"
  by (auto simp: wf_db_def list_all_iff)

lemma inserted_task_listed:
  "\<lparr>j_id = i, j_title = x, j_completed = c\<rparr>
     \<in> set (select_tasks_for_user
         (d\<lparr>tasks := tasks d @ [\<lparr>t_id = i, t_owner_id = u, t_title = x, t_completed = c\<rparr>],
            tasks_seq := k\<rparr>) u)"
  by (simp add: select_tasks_for_user_def task_columns_def image_iff)

lemma sqlite_tasks_post_cases:
  "sqlite_tasks_post user b d =
     (let title = trim (String (or_empty (b ''title'')))
      in if length title < 2
         then (respond 400 (Error ''Title must be at least 2 characters.''), d)
         else if c_id user \<notin> u_id ` set (users d)
         then (respond 500 DefaultErrorPage, d)
         else (respond 201 (Task \<lparr>j_id = tasks_seq d, j_title = title, j_completed = False\<rparr>),
               d\<lparr>tasks := tasks d @
                     [\<lparr>t_id = tasks_seq d, t_owner_id = c_id user, t_title = title,
                       t_completed = False\<rparr>],
                 tasks_seq := tasks_seq d + 1\<rparr>))"
  by (simp add: sqlite_tasks_post_def insert_task_def Let_def)

section \<open>Users\<close>

lemma find_user_None: "find_user_by_email d x = None \<longleftrightarrow> x \<notin> u_email ` set (users d)"
  by (auto simp: find_user_by_email_def find_None_iff)

lemma find_user_Some: "find_user_by_email d x = Some u \<Longrightarrow> u \<in> set (users d) \<and> u_email u = x"
  by (auto simp: find_user_by_email_def find_Some_iff)

lemma insert_user_fresh:
  "x \<notin> u_email ` set (users d) \<Longrightarrow>
   insert_user d x h =
     Some (users_seq d,
       d\<lparr>users := users d @ [\<lparr>u_id = users_seq d, u_email = x, u_password_hash = h\<rparr>],
         users_seq := users_seq d + 1\<rparr>)"
  by (simp add: insert_user_def)

lemma sqlite_auth_register_cases:
  "sqlite_auth_register e b d =
    (let email = toLowerCase (trim (String (or_empty (b ''email''))));
         password = String (or_empty (b ''password''))
     in if \<not> str_includes email CHR ''@''
        then (respond 400 (Error ''Enter a valid email.''), d)
        else if length password < 4
        then (respond 400 (Error ''Password must be at least 4 characters.''), d)
        else if email \<in> u_email ` set (users d)
        then (respond 409 (Error ''Email already registered.''), d)
        else (respond 201 (Token (createToken e (users_seq d) email)),
              d\<lparr>users := users d @
                    [\<lparr>u_id = users_seq d, u_email = email, u_password_hash = hashSync e password\<rparr>],
                users_seq := users_seq d + 1\<rparr>))"
proof -
  let ?x = "toLowerCase (trim (String (or_empty (b ''email''))))"
  show ?thesis
  proof (cases "find_user_by_email d ?x")
    case None
    then have "?x \<notin> u_email ` set (users d)" by (simp add: find_user_None)
    with None show ?thesis
      by (simp add: sqlite_auth_register_def Let_def insert_user_fresh)
  next
    case (Some u)
    from find_user_Some [OF this] have "?x \<in> u_email ` set (users d)" by force
    with Some show ?thesis
      by (simp add: sqlite_auth_register_def Let_def)
  qed
qed

lemma pg_auth_register_eq:
  "pg_auth_register e b d =
    (let email = toLowerCase (trim (String (or_empty (b ''email''))));
         password = String (or_empty (b ''password''))
     in if str_includes email CHR ''@'' \<and> 4 \<le> length password
           \<and> (\<not> pg_text email
                \<or> (email \<notin> u_email ` set (users d) \<and> \<not> pg_text (hashSync e password)))
        then (respond 500 (Error ''Server error''), d)
        else sqlite_auth_register e b d)"
proof -
  let ?x = "toLowerCase (trim (String (or_empty (b ''email''))))"
  show ?thesis
  proof (cases "find_user_by_email d ?x")
    case None
    then have "?x \<notin> u_email ` set (users d)" by (simp add: find_user_None)
    with None show ?thesis
      by (simp add: pg_auth_register_def sqlite_auth_register_def Let_def insert_user_fresh
          pool_query_find_user_def pool_query_insert_user_def server_error_def)
  next
    case (Some u)
    from find_user_Some [OF this] have "?x \<in> u_email ` set (users d)" by force
    with Some show ?thesis
      by (simp add: pg_auth_register_def sqlite_auth_register_def Let_def
          pool_query_find_user_def server_error_def)
  qed
qed

lemma users_after_put_completed [simp]:
  "users (snd (pg_put_completed user n cv k d)) = users d"
  "users (snd (sqlite_put_completed user n cv k d)) = users d"
  by (cases cv; cases n; simp add: pg_put_completed_def sqlite_put_completed_def
        update_completed_def server_error_def)+

lemma users_after_put [simp]:
  "users (snd (pg_tasks_put user n b d)) = users d"
  "users (snd (sqlite_tasks_put user n b d)) = users d"
  by (cases "b ''title''"; cases n;
      simp add: pg_tasks_put_def sqlite_tasks_put_def update_title_def Let_def)+

lemma users_after_delete [simp]:
  "users (snd (pg_tasks_delete user n d)) = users d"
  "users (snd (sqlite_tasks_delete user n d)) = users d"
  by (cases n; simp add: pg_tasks_delete_def sqlite_tasks_delete_def delete_task_def)+

section \<open>Tokens issued and verified\<close>

lemma requireAuth_createToken:
  "requireAuth (e\<lparr>now := t\<rparr>) (Bearer (createToken e uid email)) handler d' =
     (if t < now e + 2 * 60 * 60
      then handler \<lparr>c_id = uid, c_email = email, iat = now e, exp = now e + 2 * 60 * 60\<rparr>
      else (respond 401 (Error ''Invalid or expired token''), d'))"
  by (simp add: createToken_def jwt_sign_def expiresIn_def)

lemma pg_auth_login_token:
  assumes "fst (pg_auth_login e b d) = respond code (Token tok)"
  shows "\<exists>u \<in> set (users d). tok = createToken e (u_id u) (u_email u)"
proof (cases "find_user_by_email d (toLowerCase (trim (String (or_empty (b ''email'')))))")
  case None
  with assms show ?thesis by (simp add: pg_auth_login_def respond_def)
next
  case (Some u)
  from find_user_Some [OF this] have "u \<in> set (users d)" by simp
  with assms Some show ?thesis
    by (auto simp: pg_auth_login_def respond_def split: if_splits)
qed

lemma sqlite_auth_register_token:
  assumes "fst (sqlite_auth_register e b d) = respond code (Token tok)"
  shows "\<exists>u \<in> set (users (snd (sqlite_auth_register e b d))).
           tok = createToken e (u_id u) (u_email u)"
  using assms
  by (auto simp: sqlite_auth_register_cases Let_def respond_def split: if_splits)

lemma pg_auth_register_token:
  assumes "fst (pg_auth_register e b d) = respond code (Token tok)"
  shows "\<exists>u \<in> set (users (snd (pg_auth_register e b d))).
           tok = createToken e (u_id u) (u_email u)"
proof -
  from assms have "pg_auth_register e b d = sqlite_auth_register e b d"
    by (auto simp: pg_auth_register_eq Let_def respond_def split: if_splits)
  with assms sqlite_auth_register_token [of e b d code tok] show ?thesis by simp
qed

section \<open>The order of a list\<close>

lemma select_tasks_mset:
  "mset (select_tasks_for_user d u) =
   mset (map task_columns (filter (\<lambda>t. t_owner_id t = u) (tasks d)))"
  by (simp add: select_tasks_for_user_def)

lemma select_tasks_descending:
  "sorted_wrt (\<lambda>x y. j_id y \<le> j_id x) (select_tasks_for_user d u)"
proof -
  let ?xs = "sort_key t_id (filter (\<lambda>t. t_owner_id t = u) (tasks d))"
  have "sorted (map t_id ?xs)" by (rule sorted_sort_key)
  then have "sorted_wrt (\<lambda>x y. t_id x \<le> t_id y) ?xs"
    by (simp add: sorted_wrt_map)
  then have "sorted_wrt (\<lambda>x y. t_id y \<le> t_id x) (rev ?xs)"
    by (simp add: sorted_wrt_rev)
  then show ?thesis
    by (simp add: select_tasks_for_user_def sorted_wrt_map task_columns_def)
qed

lemma select_tasks_strict:
  assumes "wf_db d"
  shows "sorted_wrt (\<lambda>x y. j_id y < j_id x) (select_tasks_for_user d u)"
proof -
  let ?xs = "sort_key t_id (filter (\<lambda>t. t_owner_id t = u) (tasks d))"
  from assms have "distinct (map t_id (filter (\<lambda>t. t_owner_id t = u) (tasks d)))"
    by (simp add: wf_db_def distinct_map_filter)
  then have "distinct (map t_id ?xs)"
    by (metis distinct_map distinct_sort set_sort)
  moreover have "sorted (map t_id ?xs)" by (rule sorted_sort_key)
  ultimately have "sorted_wrt (<) (map t_id ?xs)"
    by (simp add: strict_sorted_iff)
  then have "sorted_wrt (\<lambda>x y. t_id x < t_id y) ?xs"
    by (simp add: sorted_wrt_map)
  then have "sorted_wrt (\<lambda>x y. t_id y < t_id x) (rev ?xs)"
    by (simp add: sorted_wrt_rev)
  then show ?thesis
    by (simp add: select_tasks_for_user_def sorted_wrt_map task_columns_def)
qed

lemma three_in_some_order:
  assumes "mset ts = {#a, b, c#}"
  shows "ts \<in> {[a, b, c], [a, c, b], [b, a, c], [b, c, a], [c, a, b], [c, b, a]}"
proof -
  from assms have "length ts = 3"
    by (metis size_mset size_add_mset size_empty numeral_3_eq_3)
  then obtain x y z where ts: "ts = [x, y, z]"
    by (auto simp: numeral_3_eq_3 length_Suc_conv)
  with assms show ?thesis
    by (auto simp: add_eq_conv_ex)
qed

lemma rank_of_known:
  "rank_of (Some ''high'') = Some 3" "rank_of (Some ''medium'') = Some 2"
  "rank_of (Some ''low'') = Some 1"
  by code_simp+

lemma priority_order_of_three_filtered:
  assumes "k_priority lo = Some ''low''" and "k_priority hi = Some ''high''"
    and "k_priority me = Some ''medium''" and "mset ts = {#lo, hi, me#}"
  shows "visibleTasks localeCompare (Some ts) filterStatus ''priority'' =
         filter (\<lambda>t. if filterStatus = ''all'' then True
                     else nullish (k_status t) ''todo'' = filterStatus)
           [hi, me, lo]"
proof -
  let ?cmp = "compare_tasks localeCompare ''priority''"
  let ?keep = "\<lambda>t. if filterStatus = ''all'' then True
                     else nullish (k_status t) ''todo'' = filterStatus"
  have cmp: "?cmp lo hi = Some 2" "?cmp lo me = Some 1" "?cmp hi lo = Some (- 2)"
    "?cmp hi me = Some (- 1)" "?cmp me lo = Some (- 1)" "?cmp me hi = Some 1"
    using assms(1-3) by (simp_all add: compare_tasks_def rank_of_known)
  have sorted3: "array_sort ?cmp (filter ?keep xs) = filter ?keep [hi, me, lo]"
    if "xs \<in> {[lo, hi, me], [lo, me, hi], [hi, lo, me], [hi, me, lo], [me, lo, hi], [me, hi, lo]}"
    for xs
    using that cmp by (auto simp: array_sort_def nullish_def)
  have "visibleTasks localeCompare (Some ts) filterStatus ''priority'' =
      array_sort ?cmp (filter ?keep ts)"
    by (simp only: visibleTasks_def Let_def nullish_def option.case)
  with three_in_some_order [OF assms(4)] show ?thesis
    by (simp only: sorted3)
qed

section \<open>Every request keeps the keys of the store\<close>

lemma ids_after_update:
  "map t_id (map (\<lambda>t. if selected i u t then t\<lparr>t_title := x\<rparr> else t) xs) = map t_id xs"
  "map t_id (map (\<lambda>t. if selected i u t then t\<lparr>t_completed := c\<rparr> else t) xs) = map t_id xs"
  by (induction xs) simp_all

lemma wf_db_update_title: "wf_db d \<Longrightarrow> wf_db (snd (update_title d x i u))"
  by (auto simp: wf_db_def update_title_def list_all_iff ids_after_update(1) simp del: map_map)

lemma wf_db_update_completed: "wf_db d \<Longrightarrow> wf_db (snd (update_completed d c i u))"
  by (auto simp: wf_db_def update_completed_def list_all_iff ids_after_update(2) simp del: map_map)

lemma wf_db_delete_task: "wf_db d \<Longrightarrow> wf_db (snd (delete_task d i u))"
  by (auto simp: wf_db_def delete_task_def list_all_iff distinct_map_filter)

lemma wf_db_sqlite_register: "wf_db d \<Longrightarrow> wf_db (snd (sqlite_auth_register e b d))"
  by (auto simp: sqlite_auth_register_cases Let_def wf_db_def list_all_iff)

lemma wf_db_pg_register: "wf_db d \<Longrightarrow> wf_db (snd (pg_auth_register e b d))"
  using wf_db_sqlite_register [of d e b] by (simp add: pg_auth_register_eq Let_def)

lemma wf_db_sqlite_put_completed:
  "wf_db d \<Longrightarrow> wf_db (snd (sqlite_put_completed user n cv k d))"
  using wf_db_update_completed [of d]
  by (cases cv; cases n; simp add: sqlite_put_completed_def split: prod.splits; metis snd_conv)

lemma wf_db_sqlite_put: "wf_db d \<Longrightarrow> wf_db (snd (sqlite_tasks_put user n b d))"
  using wf_db_update_title [of d] wf_db_sqlite_put_completed
  by (cases "b ''title''"; cases n; simp add: sqlite_tasks_put_def Let_def split: prod.splits;
      metis snd_conv)

lemma wf_db_pg_put: "wf_db d \<Longrightarrow> wf_db (snd (pg_tasks_put user n b d))"
  using wf_db_sqlite_put [of d user n b]
  by (cases n) (simp_all add: pg_tasks_put_eq pg_put_not_whole)

lemma wf_db_sqlite_delete: "wf_db d \<Longrightarrow> wf_db (snd (sqlite_tasks_delete user n d))"
  using wf_db_delete_task [of d]
  by (cases n; simp add: sqlite_tasks_delete_def split: prod.splits; metis snd_conv)

lemma pg_delete_not_whole: "snd (pg_tasks_delete user NotWhole d) = d"
  by (simp add: pg_tasks_delete_def server_error_def)

lemma wf_db_pg_delete: "wf_db d \<Longrightarrow> wf_db (snd (pg_tasks_delete user n d))"
  using wf_db_sqlite_delete [of d user n]
  by (cases n) (simp_all add: pg_tasks_delete_eq pg_delete_not_whole)

lemma wf_db_sqlite_post: "wf_db d \<Longrightarrow> wf_db (snd (sqlite_tasks_post user b d))"
  by (auto simp: sqlite_tasks_post_cases Let_def wf_db_def list_all_iff)

lemma wf_db_pg_post: "wf_db d \<Longrightarrow> wf_db (snd (pg_tasks_post user b d))"
  using wf_db_sqlite_post [of d user b] by (simp add: pg_tasks_post_eq)

lemma wf_db_requireAuth:
  "wf_db d \<Longrightarrow> (\<And>user. wf_db (snd (handler user))) \<Longrightarrow> wf_db (snd (requireAuth e a handler d))"
  by (cases a) (simp_all split: option.splits)

lemma wf_db_pg_server: "wf_db d \<Longrightarrow> wf_db (snd (pg_server e r d))"
  by (cases r)
    (simp_all add: wf_db_pg_register wf_db_requireAuth wf_db_pg_put wf_db_pg_delete
      wf_db_pg_post pg_tasks_get_def pg_auth_login_def Let_def split: option.splits)

lemma wf_db_sqlite_server: "wf_db d \<Longrightarrow> wf_db (snd (sqlite_server e r d))"
  by (cases r)
    (simp_all add: wf_db_sqlite_register wf_db_requireAuth wf_db_sqlite_put wf_db_sqlite_delete
      wf_db_sqlite_post sqlite_tasks_get_def sqlite_auth_login_def Let_def split: option.splits)

lemma wf_db_empty: "wf_db \<lparr>users = [], tasks = [], users_seq = 1, tasks_seq = 1\<rparr>"
  by (simp add: wf_db_def)

section \<open>Login\<close>



section \<open>Updating a task\<close>

text \<open>
  C7. When the \<open>title\<close> of an update is a string that trims to fewer than 2
  characters, the handler answers 400 and the store after it is the store before it:
  no statement has run, whatever the task id and whatever \<open>completed\<close> holds. This
  holds for both servers.
\<close>

theorem update_validates_before_mutation:
  assumes "typeof (b ''title'') = ''string''"
    and "length (trim (String (b ''title''))) < 2"
  shows "pg_tasks_put user taskId b d =
           (respond 400 (Error ''Title must be at least 2 characters.''), d)
     \<and> sqlite_tasks_put user taskId b d =
           (respond 400 (Error ''Title must be at least 2 characters.''), d)"
  using assms by (rule put_rejects_short_title)

theorem update_validates_before_mutation_witness:
  "pg_tasks_put ann (Whole 1) (body_of [(''title'', JStr '' a ''), (''completed'', JBool True)]) example_db =
           (respond 400 (Error ''Title must be at least 2 characters.''), example_db)
     \<and> sqlite_tasks_put ann (Whole 1) (body_of [(''title'', JStr '' a ''), (''completed'', JBool True)]) example_db =
           (respond 400 (Error ''Title must be at least 2 characters.''), example_db)"
proof -
  let ?b = "body_of [(''title'', JStr '' a ''), (''completed'', JBool True)]"
  have h1: "typeof (?b ''title'') = ''string''" by code_simp
  have h2: "length (trim (String (?b ''title''))) < 2" by code_simp
  from update_validates_before_mutation [where b = ?b, OF h1 h2] show ?thesis by simp
qed

text \<open>
  C10. When the body of an update holds no string under \<open>title\<close> and no boolean under
  \<open>completed\<close>, the handler answers 404 with \<open>Task not found.\<close> and leaves the store
  as it was, also for a task that exists and belongs to the caller. This holds for
  both servers.
\<close>

theorem update_without_fields_not_found:
  assumes "typeof (b ''title'') \<noteq> ''string''"
    and "typeof (b ''completed'') \<noteq> ''boolean''"
  shows "pg_tasks_put user taskId b d = (respond 404 (Error ''Task not found.''), d)
     \<and> sqlite_tasks_put user taskId b d = (respond 404 (Error ''Task not found.''), d)"
proof -
  from assms(2) have c: "pg_put_completed user taskId (b ''completed'') 0 d = (respond 404 (Error ''Task not found.''), d)"
    "sqlite_put_completed user taskId (b ''completed'') 0 d = (respond 404 (Error ''Task not found.''), d)"
    by (cases "b ''completed''"; simp add: pg_put_completed_def sqlite_put_completed_def)+
  from assms(1) c show ?thesis
    by (cases "b ''title''") (simp_all add: pg_tasks_put_def sqlite_tasks_put_def)
qed

theorem update_without_fields_not_found_witness:
  "\<lparr>t_id = 1, t_owner_id = c_id ann, t_title = ''Buy milk'', t_completed = False\<rparr> \<in> set (tasks example_db)
   \<and> pg_tasks_put ann (Whole 1) (body_of []) example_db = (respond 404 (Error ''Task not found.''), example_db)
   \<and> sqlite_tasks_put ann (Whole 1) (body_of [(''title'', JNum 5)]) example_db = (respond 404 (Error ''Task not found.''), example_db)"
proof -
  have h1: "typeof (body_of [] ''title'') \<noteq> ''string''" by code_simp
  have h2: "typeof (body_of [] ''completed'') \<noteq> ''boolean''" by code_simp
  have h3: "typeof (body_of [(''title'', JNum 5)] ''title'') \<noteq> ''string''" by code_simp
  have h4: "typeof (body_of [(''title'', JNum 5)] ''completed'') \<noteq> ''boolean''" by code_simp
  have h5: "\<lparr>t_id = 1, t_owner_id = c_id ann, t_title = ''Buy milk'', t_completed = False\<rparr> \<in> set (tasks example_db)"
    by code_simp
  from update_without_fields_not_found [where b = "body_of []", OF h1 h2]
    update_without_fields_not_found [where b = "body_of [(''title'', JNum 5)]", OF h3 h4] h5
  show ?thesis by simp
qed

text \<open>
  C3, as amended. An update of the task with the integer id \<open>i\<close> by \<open>user\<close>. A string
  title that trims to fewer than 2 characters is rejected with 400 and nothing is
  changed, on both servers. Otherwise, on the SQLite server, exactly the rows with
  \<open>id = i\<close> and \<open>owner_id\<close> the caller's id change: they take the trimmed title if a
  string title was given and the flag if a boolean \<open>completed\<close> was given, each without
  the other; the answer is 200 if a requested change matched a row, and 404 if none
  did. A delete removes exactly those rows and answers 404 if there was none, 200
  otherwise. The users are left alone. The Postgres server does the same whenever
  \<open>i\<close> lies in the range of the column \<open>id\<close> and the title holds no U+0000 (or no
  statement runs); where a statement runs with another parameter, it answers 500 and
  changes nothing.
\<close>

theorem update_and_delete_owner_scoped:
  "(if typeof (b ''title'') = ''string'' \<and> length (trim (String (b ''title''))) < 2
    then sqlite_tasks_put user (Whole i) b d =
           (respond 400 (Error ''Title must be at least 2 characters.''), d)
       \<and> pg_tasks_put user (Whole i) b d =
           (respond 400 (Error ''Title must be at least 2 characters.''), d)
    else tasks (snd (sqlite_tasks_put user (Whole i) b d)) =
           map (\<lambda>t. if selected i (c_id user) t
                    then t\<lparr>t_title := (case b ''title'' of JStr s \<Rightarrow> trim s | _ \<Rightarrow> t_title t),
                           t_completed := (case b ''completed'' of JBool c \<Rightarrow> c | _ \<Rightarrow> t_completed t)\<rparr>
                    else t) (tasks d)
       \<and> users (snd (sqlite_tasks_put user (Whole i) b d)) = users d
       \<and> fst (sqlite_tasks_put user (Whole i) b d) =
           (if (typeof (b ''title'') = ''string'' \<and>
                  length (filter (selected i (c_id user)) (tasks d)) \<noteq> 0)
               \<or> (typeof (b ''completed'') = ''boolean'' \<and>
                  length (filter (selected i (c_id user)) (tasks d)) \<noteq> 0)
            then respond 200 Success else respond 404 (Error ''Task not found.''))
       \<and> pg_tasks_put user (Whole i) b d =
           (if (typeof (b ''title'') = ''string'' \<or> typeof (b ''completed'') = ''boolean'')
               \<and> ((typeof (b ''title'') = ''string'' \<and> \<not> pg_text (trim (String (b ''title''))))
                    \<or> \<not> int4 i)
            then (respond 500 (Error ''Server error''), d)
            else sqlite_tasks_put user (Whole i) b d))
   \<and> tasks (snd (sqlite_tasks_delete user (Whole i) d)) =
        filter (\<lambda>t. \<not> selected i (c_id user) t) (tasks d)
   \<and> users (snd (sqlite_tasks_delete user (Whole i) d)) = users d
   \<and> fst (sqlite_tasks_delete user (Whole i) d) =
        (if length (filter (selected i (c_id user)) (tasks d)) = 0
         then respond 404 (Error ''Task not found.'') else respond 200 Success)
   \<and> pg_tasks_delete user (Whole i) d =
        (if int4 i then sqlite_tasks_delete user (Whole i) d
         else (respond 500 (Error ''Server error''), d))"
proof -
  have del: "tasks (snd (sqlite_tasks_delete user (Whole i) d)) =
        filter (\<lambda>t. \<not> selected i (c_id user) t) (tasks d)
     \<and> users (snd (sqlite_tasks_delete user (Whole i) d)) = users d
     \<and> fst (sqlite_tasks_delete user (Whole i) d) =
        (if length (filter (selected i (c_id user)) (tasks d)) = 0
         then respond 404 (Error ''Task not found.'') else respond 200 Success)"
    by (auto simp: sqlite_tasks_delete_whole filter_empty_conv)
  show ?thesis
  proof (cases "typeof (b ''title'') = ''string'' \<and> length (trim (String (b ''title''))) < 2")
    case True
    with put_rejects_short_title [of b user "Whole i" d] del show ?thesis
      by (simp add: pg_tasks_delete_eq)
  next
    case False
    then have "typeof (b ''title'') = ''string'' \<longrightarrow> 2 \<le> length (trim (String (b ''title'')))"
      by auto
    from sqlite_tasks_put_whole [where b = b and user = user and i = i and d = d, OF this]
    have put: "tasks (snd (sqlite_tasks_put user (Whole i) b d)) =
           map (\<lambda>t. if selected i (c_id user) t
                    then t\<lparr>t_title := (case b ''title'' of JStr s \<Rightarrow> trim s | _ \<Rightarrow> t_title t),
                           t_completed := (case b ''completed'' of JBool c \<Rightarrow> c | _ \<Rightarrow> t_completed t)\<rparr>
                    else t) (tasks d)
       \<and> fst (sqlite_tasks_put user (Whole i) b d) =
           (if (typeof (b ''title'') = ''string'' \<and>
                  length (filter (selected i (c_id user)) (tasks d)) \<noteq> 0)
               \<or> (typeof (b ''completed'') = ''boolean'' \<and>
                  length (filter (selected i (c_id user)) (tasks d)) \<noteq> 0)
            then respond 200 Success else respond 404 (Error ''Task not found.''))"
      by (simp add: filter_empty_conv) blast
    have pg: "pg_tasks_put user (Whole i) b d =
           (if (typeof (b ''title'') = ''string'' \<or> typeof (b ''completed'') = ''boolean'')
               \<and> ((typeof (b ''title'') = ''string'' \<and> \<not> pg_text (trim (String (b ''title''))))
                    \<or> \<not> int4 i)
            then (respond 500 (Error ''Server error''), d)
            else sqlite_tasks_put user (Whole i) b d)"
      using False by (auto simp: pg_tasks_put_eq)
    from False put pg del show ?thesis
      by (simp only: if_False users_after_put pg_tasks_delete_eq simp_thms)
  qed
qed

theorem update_and_delete_owner_scoped_witness:
  "fst (pg_tasks_put ann (Whole 1) (body_of [(''completed'', JBool True)]) example_db) = respond 200 Success
   \<and> tasks (snd (pg_tasks_put ann (Whole 1) (body_of [(''completed'', JBool True)]) example_db)) =
       [\<lparr>t_id = 1, t_owner_id = 1, t_title = ''Buy milk'', t_completed = True\<rparr>,
        \<lparr>t_id = 2, t_owner_id = 2, t_title = ''Walk dog'', t_completed = True\<rparr>,
        \<lparr>t_id = 3, t_owner_id = 1, t_title = ''Pay rent'', t_completed = False\<rparr>]
   \<and> fst (sqlite_tasks_delete ann (Whole 2) example_db) = respond 404 (Error ''Task not found.'')
   \<and> tasks (snd (sqlite_tasks_delete ann (Whole 2) example_db)) = tasks example_db
   \<and> pg_tasks_delete ann (Whole 2147483648) example_db =
       (respond 500 (Error ''Server error''), example_db)"
proof -
  let ?b = "body_of [(''completed'', JBool True)]"
  have valid: "\<not> (typeof (?b ''title'') = ''string'' \<and> length (trim (String (?b ''title''))) < 2)"
    by code_simp
  have fields: "?b ''title'' = JUndefined" "?b ''completed'' = JBool True"
    by code_simp+
  have range: "int4 1" "int4 2" "\<not> int4 2147483648"
    by (simp_all add: int4_def)
  have rows: "tasks example_db =
       [\<lparr>t_id = 1, t_owner_id = 1, t_title = ''Buy milk'', t_completed = False\<rparr>,
        \<lparr>t_id = 2, t_owner_id = 2, t_title = ''Walk dog'', t_completed = True\<rparr>,
        \<lparr>t_id = 3, t_owner_id = 1, t_title = ''Pay rent'', t_completed = False\<rparr>]"
    "c_id ann = 1"
    by (simp_all add: example_db_def ann_def)
  from update_and_delete_owner_scoped [where b = ?b and user = ann and i = 1 and d = example_db]
    update_and_delete_owner_scoped [where b = ?b and user = ann and i = 2 and d = example_db]
    update_and_delete_owner_scoped [where b = ?b and user = ann and i = 2147483648
      and d = example_db]
  show ?thesis
    unfolding fields rows by (simp add: selected_def range)
qed

text \<open>
  C3 as first stated lets an update fail with 404 whenever no requested change
  affected a row, and lets each given field be applied without the other. An update
  with the title \<open>a\<close> and \<open>completed = true\<close> fails with 400 instead, under an id
  that selects no row as under the id of a task of the caller, and it leaves
  \<open>completed\<close> as it was.
\<close>

theorem update_short_title_counterexample:
  "length (filter (selected 99 (c_id ann)) (tasks example_db)) = 0
   \<and> pg_tasks_put ann (Whole 99) (body_of [(''title'', JStr ''a''), (''completed'', JBool True)])
        example_db
      = (respond 400 (Error ''Title must be at least 2 characters.''), example_db)
   \<and> sqlite_tasks_put ann (Whole 99) (body_of [(''title'', JStr ''a''), (''completed'', JBool True)])
        example_db
      = (respond 400 (Error ''Title must be at least 2 characters.''), example_db)
   \<and> status (fst (pg_tasks_put ann (Whole 99)
        (body_of [(''title'', JStr ''a''), (''completed'', JBool True)]) example_db)) \<noteq> 404
   \<and> \<lparr>t_id = 1, t_owner_id = c_id ann, t_title = ''Buy milk'', t_completed = False\<rparr>
        \<in> set (tasks example_db)
   \<and> pg_tasks_put ann (Whole 1) (body_of [(''title'', JStr ''a''), (''completed'', JBool True)])
        example_db
      = (respond 400 (Error ''Title must be at least 2 characters.''), example_db)"
  by code_simp

section \<open>Tasks of other users\<close>

text \<open>
  C1, as amended. Let the store keep its keys, let \<open>t\<close> be a stored task and let the
  caller \<open>user\<close> not be its owner. Then the caller's list holds no task with the id
  of \<open>t\<close>; an update under the exact id of \<open>t\<close> changes nothing and fails, with 400 if
  its title is a string trimming to fewer than 2 characters and with 404
  \<open>Task not found.\<close> otherwise; a delete under that id changes nothing and fails with
  404; and after any update, delete or create of the caller, under any id, \<open>t\<close> is
  still stored as it was. This holds for the SQLite server, and for the Postgres
  server whenever the id of \<open>t\<close> lies in the range of the column \<open>id\<close> and the title
  holds no U+0000; where a statement runs with another parameter, the Postgres server
  answers 500, and then too nothing is changed.
\<close>

theorem foreign_task_isolated:
  assumes "wf_db d" and "t \<in> set (tasks d)" and "t_owner_id t \<noteq> c_id user"
  shows "pg_tasks_get user d = (respond 200 (TaskList (select_tasks_for_user d (c_id user))), d)
    \<and> sqlite_tasks_get user d = pg_tasks_get user d
    \<and> t_id t \<notin> j_id ` set (select_tasks_for_user d (c_id user))
    \<and> sqlite_tasks_put user (Whole (t_id t)) b d =
        ((if typeof (b ''title'') = ''string'' \<and> length (trim (String (b ''title''))) < 2
          then respond 400 (Error ''Title must be at least 2 characters.'')
          else respond 404 (Error ''Task not found.'')), d)
    \<and> pg_tasks_put user (Whole (t_id t)) b d =
        ((if typeof (b ''title'') = ''string'' \<and> length (trim (String (b ''title''))) < 2
          then respond 400 (Error ''Title must be at least 2 characters.'')
          else if (typeof (b ''title'') = ''string'' \<or> typeof (b ''completed'') = ''boolean'')
               \<and> ((typeof (b ''title'') = ''string'' \<and> \<not> pg_text (trim (String (b ''title''))))
                    \<or> \<not> int4 (t_id t))
          then respond 500 (Error ''Server error'')
          else respond 404 (Error ''Task not found.'')), d)
    \<and> sqlite_tasks_delete user (Whole (t_id t)) d = (respond 404 (Error ''Task not found.''), d)
    \<and> pg_tasks_delete user (Whole (t_id t)) d =
        ((if int4 (t_id t) then respond 404 (Error ''Task not found.'')
          else respond 500 (Error ''Server error'')), d)
    \<and> t \<in> set (tasks (snd (sqlite_tasks_put user n b d)))
    \<and> t \<in> set (tasks (snd (sqlite_tasks_delete user n d)))
    \<and> t \<in> set (tasks (snd (sqlite_tasks_post user b d)))
    \<and> t \<in> set (tasks (snd (pg_tasks_put user n b d)))
    \<and> t \<in> set (tasks (snd (pg_tasks_delete user n d)))
    \<and> t \<in> set (tasks (snd (pg_tasks_post user b d)))"
proof -
  note none = foreign_task_unselected [OF assms]
  have put: "sqlite_tasks_put user (Whole (t_id t)) b d =
        ((if typeof (b ''title'') = ''string'' \<and> length (trim (String (b ''title''))) < 2
          then respond 400 (Error ''Title must be at least 2 characters.'')
          else respond 404 (Error ''Task not found.'')), d)"
  proof (cases "typeof (b ''title'') = ''string'' \<and> length (trim (String (b ''title''))) < 2")
    case True
    with put_rejects_short_title [of b user "Whole (t_id t)" d] show ?thesis by simp
  next
    case False
    then have "typeof (b ''title'') = ''string'' \<longrightarrow> 2 \<le> length (trim (String (b ''title'')))"
      by auto
    from sqlite_tasks_put_whole [where b = b and user = user and i = "t_id t" and d = d, OF this]
      False none
    show ?thesis by (auto simp: map_unselected)
  qed
  have del: "sqlite_tasks_delete user (Whole (t_id t)) d =
      (respond 404 (Error ''Task not found.''), d)"
    using none by (simp add: sqlite_tasks_delete_whole filter_unselected)
  have pg_put: "pg_tasks_put user (Whole (t_id t)) b d =
        ((if typeof (b ''title'') = ''string'' \<and> length (trim (String (b ''title''))) < 2
          then respond 400 (Error ''Title must be at least 2 characters.'')
          else if (typeof (b ''title'') = ''string'' \<or> typeof (b ''completed'') = ''boolean'')
               \<and> ((typeof (b ''title'') = ''string'' \<and> \<not> pg_text (trim (String (b ''title''))))
                    \<or> \<not> int4 (t_id t))
          then respond 500 (Error ''Server error'')
          else respond 404 (Error ''Task not found.'')), d)"
    by (auto simp: pg_tasks_put_eq put)
  have pg_del: "pg_tasks_delete user (Whole (t_id t)) d =
        ((if int4 (t_id t) then respond 404 (Error ''Task not found.'')
          else respond 500 (Error ''Server error'')), d)"
    by (simp add: pg_tasks_delete_eq del)
  show ?thesis
    using put del pg_put pg_del foreign_task_not_listed [OF assms] assms(2,3)
    by (simp only: pg_tasks_get_def sqlite_tasks_get_eq sqlite_put_keeps_foreign
        sqlite_delete_keeps_foreign sqlite_post_keeps_rows pg_put_keeps_foreign
        pg_delete_keeps_foreign pg_post_keeps_rows simp_thms)
qed

theorem foreign_task_isolated_witness:
  "pg_tasks_get bob example_db =
      (respond 200 (TaskList [\<lparr>j_id = 2, j_title = ''Walk dog'', j_completed = True\<rparr>]), example_db)
   \<and> sqlite_tasks_put bob (Whole 1) (body_of [(''title'', JStr ''Mine now''), (''completed'', JBool True)]) example_db
      = (respond 404 (Error ''Task not found.''), example_db)
   \<and> pg_tasks_put bob (Whole 1) (body_of [(''title'', JStr ''Mine now''), (''completed'', JBool True)]) example_db
      = (respond 404 (Error ''Task not found.''), example_db)
   \<and> sqlite_tasks_delete bob (Whole 1) example_db
      = (respond 404 (Error ''Task not found.''), example_db)
   \<and> pg_tasks_delete bob (Whole 1) example_db
      = (respond 404 (Error ''Task not found.''), example_db)"
proof -
  let ?t = "\<lparr>t_id = 1, t_owner_id = 1, t_title = ''Buy milk'', t_completed = False\<rparr>"
  let ?b = "body_of [(''title'', JStr ''Mine now''), (''completed'', JBool True)]"
  have h1: "wf_db example_db" by code_simp
  have h2: "?t \<in> set (tasks example_db)" by code_simp
  have h3: "t_owner_id ?t \<noteq> c_id bob" by code_simp
  have list: "select_tasks_for_user example_db (c_id bob) =
      [\<lparr>j_id = 2, j_title = ''Walk dog'', j_completed = True\<rparr>]" by code_simp
  have valid: "\<not> (typeof (?b ''title'') = ''string'' \<and> length (trim (String (?b ''title''))) < 2)"
    by code_simp
  have accepted: "pg_text (trim (String (?b ''title'')))" "int4 1"
    by code_simp+
  from foreign_task_isolated [where b = ?b, OF h1 h2 h3] list valid accepted
  show ?thesis by simp
qed

text \<open>
  C1 as first stated lets every such update fail with 404. An update of another
  user's task with the title \<open>a\<close> fails with 400 instead.
\<close>

theorem foreign_update_validation_counterexample:
  "\<lparr>t_id = 1, t_owner_id = 1, t_title = ''Buy milk'', t_completed = False\<rparr> \<in> set (tasks example_db)
   \<and> c_id bob \<noteq> 1
   \<and> pg_tasks_put bob (Whole 1) (body_of [(''title'', JStr ''a'')]) example_db
      = (respond 400 (Error ''Title must be at least 2 characters.''), example_db)
   \<and> sqlite_tasks_put bob (Whole 1) (body_of [(''title'', JStr ''a'')]) example_db
      = (respond 400 (Error ''Title must be at least 2 characters.''), example_db)
   \<and> status (fst (pg_tasks_put bob (Whole 1) (body_of [(''title'', JStr ''a'')]) example_db)) \<noteq> 404
   \<and> status (fst (sqlite_tasks_put bob (Whole 1) (body_of [(''title'', JStr ''a'')]) example_db)) \<noteq> 404"
  by code_simp

section \<open>Creating a task\<close>

text \<open>
  C5. A create whose title, converted to a string and trimmed, has fewer than 2
  characters fails with 400 and changes nothing, and no other create is answered
  with 400; the titles \<open>''''\<close> and \<open>a\<close> fail, and \<open>ok\<close> succeeds for a caller who is a
  stored user. On success the answer is 201 with the created task: the id the
  generator gave (new in a store that keeps its keys), the trimmed title, and
  \<open>completed = false\<close>; the task is stored for the caller and is in the caller's
  list. A create with a longer title does not succeed where the store rejects the
  insert: for a caller who is no stored user on both servers, and for a title holding
  U+0000 on the Postgres server. Then the answer is 500 and nothing is changed.
\<close>

theorem create_validates_title:
  "(if length (trim (String (or_empty (b ''title'')))) < 2
    then sqlite_tasks_post user b d =
           (respond 400 (Error ''Title must be at least 2 characters.''), d)
       \<and> pg_tasks_post user b d =
           (respond 400 (Error ''Title must be at least 2 characters.''), d)
    else if c_id user \<notin> u_id ` set (users d)
    then sqlite_tasks_post user b d = (respond 500 DefaultErrorPage, d)
       \<and> pg_tasks_post user b d = (respond 500 (Error ''Server error''), d)
    else sqlite_tasks_post user b d =
           (respond 201 (Task \<lparr>j_id = tasks_seq d,
                                j_title = trim (String (or_empty (b ''title''))),
                                j_completed = False\<rparr>),
            d\<lparr>tasks := tasks d @
                  [\<lparr>t_id = tasks_seq d, t_owner_id = c_id user,
                    t_title = trim (String (or_empty (b ''title''))), t_completed = False\<rparr>],
              tasks_seq := tasks_seq d + 1\<rparr>)
       \<and> pg_tasks_post user b d =
           (if pg_text (trim (String (or_empty (b ''title''))))
            then sqlite_tasks_post user b d
            else (respond 500 (Error ''Server error''), d))
       \<and> \<lparr>j_id = tasks_seq d, j_title = trim (String (or_empty (b ''title''))),
            j_completed = False\<rparr>
           \<in> set (select_tasks_for_user (snd (sqlite_tasks_post user b d)) (c_id user))
       \<and> (wf_db d \<longrightarrow> tasks_seq d \<notin> t_id ` set (tasks d)))
   \<and> (status (fst (sqlite_tasks_post user b d)) = 400
        \<longleftrightarrow> length (trim (String (or_empty (b ''title'')))) < 2)
   \<and> (status (fst (pg_tasks_post user b d)) = 400
        \<longleftrightarrow> length (trim (String (or_empty (b ''title'')))) < 2)
   \<and> status (fst (sqlite_tasks_post user (b(''title'' := JStr '''')) d)) = 400
   \<and> status (fst (sqlite_tasks_post user (b(''title'' := JStr ''a'')) d)) = 400
   \<and> status (fst (pg_tasks_post user (b(''title'' := JStr '''')) d)) = 400
   \<and> status (fst (pg_tasks_post user (b(''title'' := JStr ''a'')) d)) = 400
   \<and> (c_id user \<in> u_id ` set (users d) \<longrightarrow>
        status (fst (sqlite_tasks_post user (b(''title'' := JStr ''ok'')) d)) = 201
        \<and> status (fst (pg_tasks_post user (b(''title'' := JStr ''ok'')) d)) = 201)"
proof -
  let ?title = "trim (String (or_empty (b ''title'')))"
  have short: "trim (String (or_empty (JStr ''''))) = ''''"
    "trim (String (or_empty (JStr ''a''))) = ''a''"
    "trim (String (or_empty (JStr ''ok''))) = ''ok''"
    "pg_text ''ok''"
    by code_simp+
  have concrete: "status (fst (sqlite_tasks_post user (b(''title'' := JStr '''')) d)) = 400"
    "status (fst (sqlite_tasks_post user (b(''title'' := JStr ''a'')) d)) = 400"
    "status (fst (pg_tasks_post user (b(''title'' := JStr '''')) d)) = 400"
    "status (fst (pg_tasks_post user (b(''title'' := JStr ''a'')) d)) = 400"
    by (simp_all add: pg_tasks_post_eq sqlite_tasks_post_cases short respond_def Let_def)
  have ok: "status (fst (sqlite_tasks_post user (b(''title'' := JStr ''ok'')) d)) = 201
        \<and> status (fst (pg_tasks_post user (b(''title'' := JStr ''ok'')) d)) = 201"
    if "c_id user \<in> u_id ` set (users d)"
    using that by (simp add: pg_tasks_post_eq sqlite_tasks_post_cases short respond_def Let_def)
  have codes: "(status (fst (sqlite_tasks_post user b d)) = 400 \<longleftrightarrow> length ?title < 2)"
    "(status (fst (pg_tasks_post user b d)) = 400 \<longleftrightarrow> length ?title < 2)"
    by (simp_all add: pg_tasks_post_eq sqlite_tasks_post_cases respond_def Let_def)
  have general: "if length ?title < 2
    then sqlite_tasks_post user b d =
           (respond 400 (Error ''Title must be at least 2 characters.''), d)
       \<and> pg_tasks_post user b d =
           (respond 400 (Error ''Title must be at least 2 characters.''), d)
    else if c_id user \<notin> u_id ` set (users d)
    then sqlite_tasks_post user b d = (respond 500 DefaultErrorPage, d)
       \<and> pg_tasks_post user b d = (respond 500 (Error ''Server error''), d)
    else sqlite_tasks_post user b d =
           (respond 201 (Task \<lparr>j_id = tasks_seq d, j_title = ?title, j_completed = False\<rparr>),
            d\<lparr>tasks := tasks d @
                  [\<lparr>t_id = tasks_seq d, t_owner_id = c_id user,
                    t_title = ?title, t_completed = False\<rparr>],
              tasks_seq := tasks_seq d + 1\<rparr>)
       \<and> pg_tasks_post user b d =
           (if pg_text ?title then sqlite_tasks_post user b d
            else (respond 500 (Error ''Server error''), d))
       \<and> \<lparr>j_id = tasks_seq d, j_title = ?title, j_completed = False\<rparr>
           \<in> set (select_tasks_for_user (snd (sqlite_tasks_post user b d)) (c_id user))
       \<and> (wf_db d \<longrightarrow> tasks_seq d \<notin> t_id ` set (tasks d))"
    by (simp add: pg_tasks_post_eq sqlite_tasks_post_cases Let_def inserted_task_listed
        wf_db_fresh_task_id)
  from general concrete ok codes show ?thesis
    by blast
qed

theorem create_validates_title_witness:
  "wf_db example_db
   \<and> c_id ann \<in> u_id ` set (users example_db)
   \<and> pg_tasks_post ann (body_of [(''title'', JStr ''  Call mum '')]) example_db =
       (respond 201 (Task \<lparr>j_id = 4, j_title = ''Call mum'', j_completed = False\<rparr>),
        example_db\<lparr>tasks := tasks example_db @
            [\<lparr>t_id = 4, t_owner_id = 1, t_title = ''Call mum'', t_completed = False\<rparr>],
          tasks_seq := 5\<rparr>)
   \<and> sqlite_tasks_post ann (body_of [(''title'', JStr ''  Call mum '')]) example_db =
       (respond 201 (Task \<lparr>j_id = 4, j_title = ''Call mum'', j_completed = False\<rparr>),
        example_db\<lparr>tasks := tasks example_db @
            [\<lparr>t_id = 4, t_owner_id = 1, t_title = ''Call mum'', t_completed = False\<rparr>],
          tasks_seq := 5\<rparr>)
   \<and> 4 \<notin> t_id ` set (tasks example_db)
   \<and> sqlite_tasks_post ann (body_of [(''title'', JStr '' a '')]) example_db =
       (respond 400 (Error ''Title must be at least 2 characters.''), example_db)
   \<and> status (fst (pg_tasks_post ann
        ((body_of [(''title'', JStr ''  Call mum '')])(''title'' := JStr ''ok'')) example_db)) = 201"
proof -
  let ?b = "body_of [(''title'', JStr ''  Call mum '')]"
  let ?b' = "body_of [(''title'', JStr '' a '')]"
  have h: "wf_db example_db" by code_simp
  have known: "c_id ann \<in> u_id ` set (users example_db)" by code_simp
  have ok: "trim (String (or_empty (?b ''title''))) = ''Call mum''" by code_simp
  have clean: "pg_text ''Call mum''" by code_simp
  have short: "trim (String (or_empty (?b' ''title''))) = ''a''" by code_simp
  have seq: "tasks_seq example_db = 4" "c_id ann = 1" by code_simp+
  from create_validates_title [where b = ?b and user = ann and d = example_db]
    create_validates_title [where b = ?b' and user = ann and d = example_db] h known clean
  show ?thesis
    unfolding ok short by (simp add: seq)
qed

section \<open>Registration\<close>

text \<open>
  C4 asks that a registration with an email that holds an \<open>@\<close> and is not yet stored,
  and with a password of 4 characters or more, stores the user and answers 201 with a
  token. The SQLite server does (\<open>sqlite_auth_register_cases\<close> above). The Postgres
  server does not when the email holds the character U+0000: its lookup is rejected and
  it answers 500 \<open>Server error\<close>, where the SQLite server stores the user and answers
  201 with a token for the new id, issued at that moment.
\<close>

theorem register_nul_email_on_postgres:
  "str_includes (toLowerCase (trim (String (or_empty
      (body_of [(''email'', JStr (''a'' @ [CHR 0x00] @ ''@x.io'')), (''password'', JStr ''secret'')]
        ''email''))))) CHR ''@''
   \<and> pg_auth_register example_env
        (body_of [(''email'', JStr (''a'' @ [CHR 0x00] @ ''@x.io'')), (''password'', JStr ''secret'')])
        example_db
      = (respond 500 (Error ''Server error''), example_db)
   \<and> sqlite_auth_register example_env
        (body_of [(''email'', JStr (''a'' @ [CHR 0x00] @ ''@x.io'')), (''password'', JStr ''secret'')])
        example_db
      = (respond 201
          (Token (Jwt ''dev-fallback''
            \<lparr>c_id = 3, c_email = ''a'' @ [CHR 0x00] @ ''@x.io'', iat = 1000, exp = 8200\<rparr>)),
         example_db\<lparr>users := users example_db @
             [\<lparr>u_id = 3, u_email = ''a'' @ [CHR 0x00] @ ''@x.io'',
               u_password_hash = ''salt:secret''\<rparr>],
           users_seq := 4\<rparr>)"
  by code_simp

section \<open>Token lifetime\<close>

text \<open>
  C8. Let a login or a registration at the time \<open>now e\<close> answer with a token. Then the
  token is the one created for a stored user at that time, and at any time \<open>t\<close>, with
  the same secret and whatever the store then holds, \<open>requireAuth\<close> passes that user's
  id and email to the handler if \<open>t\<close> is before \<open>now e\<close> plus two hours, and answers
  401 \<open>Invalid or expired token\<close> from then on (in particular one second after the
  two hours). Nothing but the time decides, so no state of the server revokes a token.
  This holds for both servers.
\<close>

theorem token_lifetime:
  assumes "fst (pg_auth_login e b d) = respond code (Token tok)
         \<or> fst (pg_auth_register e b d) = respond code (Token tok)
         \<or> fst (sqlite_auth_login e b d) = respond code (Token tok)
         \<or> fst (sqlite_auth_register e b d) = respond code (Token tok)"
  shows "\<exists>u. (u \<in> set (users d) \<or> u \<in> set (users (snd (pg_auth_register e b d)))
          \<or> u \<in> set (users (snd (sqlite_auth_register e b d))))
     \<and> tok = createToken e (u_id u) (u_email u)
     \<and> (\<forall>t handler d'.
           requireAuth (e\<lparr>now := t\<rparr>) (Bearer tok) handler d' =
             (if t < now e + 2 * 60 * 60
              then handler \<lparr>c_id = u_id u, c_email = u_email u,
                            iat = now e, exp = now e + 2 * 60 * 60\<rparr>
              else (respond 401 (Error ''Invalid or expired token''), d')))"
proof -
  from assms have "fst (pg_auth_login e b d) = respond code (Token tok)
         \<or> fst (pg_auth_register e b d) = respond code (Token tok)
         \<or> fst (sqlite_auth_register e b d) = respond code (Token tok)"
    by (auto simp: sqlite_auth_login_eq)
  then obtain u where "u \<in> set (users d) \<or> u \<in> set (users (snd (pg_auth_register e b d)))
      \<or> u \<in> set (users (snd (sqlite_auth_register e b d)))"
    and "tok = createToken e (u_id u) (u_email u)"
    using pg_auth_login_token pg_auth_register_token sqlite_auth_register_token by blast
  then show ?thesis
    using requireAuth_createToken by blast
qed

theorem token_lifetime_witness:
  "fst (pg_auth_login example_env
      (body_of [(''email'', JStr ''Ann@x.io''), (''password'', JStr ''pass1'')]) example_db)
     = respond 200 (Token (createToken example_env 1 ''ann@x.io''))
   \<and> requireAuth (example_env\<lparr>now := now example_env + 2 * 60 * 60 + 1\<rparr>)
        (Bearer (createToken example_env 1 ''ann@x.io'')) (\<lambda>user. pg_tasks_get user example_db)
        example_db
     = (respond 401 (Error ''Invalid or expired token''), example_db)
   \<and> requireAuth (example_env\<lparr>now := now example_env + 2 * 60 * 60 - 1\<rparr>)
        (Bearer (createToken example_env 1 ''ann@x.io'')) (\<lambda>user. pg_tasks_get user example_db)
        example_db
     = pg_tasks_get ann example_db"
proof -
  let ?b = "body_of [(''email'', JStr ''Ann@x.io''), (''password'', JStr ''pass1'')]"
  let ?tok = "createToken example_env 1 ''ann@x.io''"
  have login: "fst (pg_auth_login example_env ?b example_db) = respond 200 (Token ?tok)"
    by code_simp
  then have "fst (pg_auth_login example_env ?b example_db) = respond 200 (Token ?tok)
         \<or> fst (pg_auth_register example_env ?b example_db) = respond 200 (Token ?tok)
         \<or> fst (sqlite_auth_login example_env ?b example_db) = respond 200 (Token ?tok)
         \<or> fst (sqlite_auth_register example_env ?b example_db) = respond 200 (Token ?tok)"
    by simp
  from token_lifetime [OF this] obtain u :: user_row where
    tok: "?tok = createToken example_env (u_id u) (u_email u)"
    and life: "\<And>t handler d'.
           requireAuth (example_env\<lparr>now := t\<rparr>) (Bearer ?tok) handler d' =
             (if t < now example_env + 2 * 60 * 60
              then handler \<lparr>c_id = u_id u, c_email = u_email u,
                            iat = now example_env, exp = now example_env + 2 * 60 * 60\<rparr>
              else (respond 401 (Error ''Invalid or expired token''), d'))"
    by blast
  from tok have u: "u_id u = 1" "u_email u = ''ann@x.io''"
    by (simp_all add: createToken_def jwt_sign_def)
  have ann: "\<lparr>c_id = 1, c_email = ''ann@x.io'', iat = now example_env,
       exp = now example_env + 2 * 60 * 60\<rparr> = ann"
    by (simp add: ann_def example_env_def)
  have time: "0 < now example_env" by (simp add: example_env_def)
  from life [of "now example_env + 2 * 60 * 60 + 1"] life [of "now example_env + 2 * 60 * 60 - 1"]
    login time
  show ?thesis
    unfolding u ann by simp
qed

section \<open>The two servers side by side\<close>

text \<open>
  C9 asks that both servers answer every request with the same status and the same
  shape of response. They do wherever the Postgres server's statement is accepted
  (\<open>pg_tasks_put_eq\<close>, \<open>pg_tasks_delete_eq\<close>, \<open>pg_tasks_post_eq\<close>,
  \<open>pg_auth_register_eq\<close>, \<open>sqlite_auth_login_eq\<close> and \<open>sqlite_tasks_get_eq\<close> above).
  For an authenticated update or delete under an \<open>:id\<close> such as \<open>abc\<close> they do not:
  the Postgres server answers 500 \<open>Server error\<close>, the SQLite server 404
  \<open>Task not found.\<close>.
\<close>

theorem servers_differ_on_non_integer_id:
  "pg_server example_env
      (PutTask (Bearer (createToken example_env 1 ''ann@x.io'')) NotWhole
         (body_of [(''completed'', JBool True)])) example_db
     = (respond 500 (Error ''Server error''), example_db)
   \<and> sqlite_server example_env
      (PutTask (Bearer (createToken example_env 1 ''ann@x.io'')) NotWhole
         (body_of [(''completed'', JBool True)])) example_db
     = (respond 404 (Error ''Task not found.''), example_db)
   \<and> pg_server example_env
      (DeleteTask (Bearer (createToken example_env 1 ''ann@x.io'')) NotWhole) example_db
     = (respond 500 (Error ''Server error''), example_db)
   \<and> sqlite_server example_env
      (DeleteTask (Bearer (createToken example_env 1 ''ann@x.io'')) NotWhole) example_db
     = (respond 404 (Error ''Task not found.''), example_db)"
  by code_simp

section \<open>Listing tasks\<close>

text \<open>
  C6. The list a server answers holds the columns of exactly the caller's tasks, each as
  often as it is stored, in descending order of id (strictly descending in a store that
  keeps its keys); both servers answer the same. On the client, with
  \<open>sortBy = priority\<close>, three tasks of priorities low, high and medium are shown in
  the order high, medium, low, in whatever order the client holds them and whatever
  their ids; a status filter leaves out tasks and keeps that order.
\<close>

theorem list_order:
  "pg_tasks_get user d = (respond 200 (TaskList (select_tasks_for_user d (c_id user))), d)
   \<and> sqlite_tasks_get user d = pg_tasks_get user d
   \<and> mset (select_tasks_for_user d (c_id user)) =
       mset (map task_columns (filter (\<lambda>t. t_owner_id t = c_id user) (tasks d)))
   \<and> sorted_wrt (\<lambda>x y. j_id y \<le> j_id x) (select_tasks_for_user d (c_id user))
   \<and> (wf_db d \<longrightarrow> sorted_wrt (\<lambda>x y. j_id y < j_id x) (select_tasks_for_user d (c_id user)))
   \<and> (k_priority lo = Some ''low'' \<and> k_priority hi = Some ''high''
        \<and> k_priority me = Some ''medium'' \<and> mset ts = {#lo, hi, me#}
       \<longrightarrow> visibleTasks localeCompare (Some ts) ''all'' ''priority'' = [hi, me, lo]
         \<and> visibleTasks localeCompare (Some ts) filterStatus ''priority'' =
             filter (\<lambda>t. if filterStatus = ''all'' then True
                         else nullish (k_status t) ''todo'' = filterStatus)
               [hi, me, lo])"
proof -
  have "visibleTasks localeCompare (Some ts) ''all'' ''priority'' = [hi, me, lo]
      \<and> visibleTasks localeCompare (Some ts) filterStatus ''priority'' =
          filter (\<lambda>t. if filterStatus = ''all'' then True
                      else nullish (k_status t) ''todo'' = filterStatus)
            [hi, me, lo]"
    if "k_priority lo = Some ''low''" and "k_priority hi = Some ''high''"
      and "k_priority me = Some ''medium''" and "mset ts = {#lo, hi, me#}"
    using priority_order_of_three_filtered [OF that, of localeCompare filterStatus]
      priority_order_of_three_filtered [OF that, of localeCompare "''all''"]
    by simp
  then show ?thesis
    using select_tasks_mset select_tasks_descending select_tasks_strict
    by (simp add: pg_tasks_get_def sqlite_tasks_get_eq)
qed

theorem list_order_witness:
  "wf_db example_db
   \<and> pg_tasks_get ann example_db =
       (respond 200 (TaskList [\<lparr>j_id = 3, j_title = ''Pay rent'', j_completed = False\<rparr>,
                               \<lparr>j_id = 1, j_title = ''Buy milk'', j_completed = False\<rparr>]),
        example_db)
   \<and> visibleTasks (\<lambda>x y. 0) (Some [low_task, high_task, medium_task]) ''all'' ''priority''
       = [high_task, medium_task, low_task]
   \<and> visibleTasks (\<lambda>x y. 0) (Some [medium_task, low_task, high_task]) ''all'' ''priority''
       = [high_task, medium_task, low_task]"
proof -
  have h: "wf_db example_db" by code_simp
  have rows: "select_tasks_for_user example_db (c_id ann) =
      [\<lparr>j_id = 3, j_title = ''Pay rent'', j_completed = False\<rparr>,
       \<lparr>j_id = 1, j_title = ''Buy milk'', j_completed = False\<rparr>]"
    by code_simp
  have p: "k_priority low_task = Some ''low''" "k_priority high_task = Some ''high''"
    "k_priority medium_task = Some ''medium''"
    by (simp_all add: low_task_def high_task_def medium_task_def)
  have m: "mset [low_task, high_task, medium_task] = {#low_task, high_task, medium_task#}"
    "mset [medium_task, low_task, high_task] = {#low_task, high_task, medium_task#}"
    by simp_all
  from list_order [where user = ann and d = example_db and lo = low_task and hi = high_task
      and me = medium_task and ts = "[low_task, high_task, medium_task]"
      and localeCompare = "\<lambda>x y. 0"]
    list_order [where user = ann and d = example_db and lo = low_task and hi = high_task
      and me = medium_task and ts = "[medium_task, low_task, high_task]"
      and localeCompare = "\<lambda>x y. 0"]
    h p m
  show ?thesis
    unfolding rows by simp
qed

end
